theory Spec2Isabelle
  imports Main
begin

section \<open>The dependency discovery C interface (clang/tools/libclang/CDependencies.cpp)\<close>

text \<open>
  A shallow embedding of \<^verbatim>\<open>CDependencies.cpp\<close>. Strings are \<open>string\<close>, vectors and
  string sets are lists (\<^verbatim>\<open>cxstring::createSet\<close> copies a vector element by element,
  \<^verbatim>\<open>cxstring::createDup\<close> copies a string), a pointer that may be null is an
  \<open>option\<close> (for \<^verbatim>\<open>error\<close>, whose target is part of the state, a flag). The two
  callbacks of the caller and the scanning engine are parameters.
  Everything the code does to the outside is recorded, in order, in a list of events.
  A path on which the C++ has no defined result (an assertion that fails, a store
  through a null pointer, a read past the end of a buffer) ends in a \<open>fault\<close>.
  The functions that create and dispose of services, workers and results are not
  modelled: memory is not part of the model.
\<close>

subsection \<open>Enumerations\<close>

datatype CXDependencyMode = CXDependencyMode_Flat | CXDependencyMode_Full

text \<open>The formats a service created by this file can have.\<close>

datatype ScanningOutputFormat = Make | Full

text \<open>\<^verbatim>\<open>unwrap(CXDependencyMode)\<close>, lines 32-39.\<close>

fun unwrap_Format :: "CXDependencyMode \<Rightarrow> ScanningOutputFormat" where
  "unwrap_Format CXDependencyMode_Flat = Make"
| "unwrap_Format CXDependencyMode_Full = Full"

datatype ModuleOutputKind =
  ModuleFile | DependencyFile | DependencyTargets | DiagnosticSerializationFile

datatype CXOutputKind =
  CXOutputKind_ModuleFile | CXOutputKind_Dependencies
  | CXOutputKind_DependenciesTarget | CXOutputKind_SerializedDiagnostics

text \<open>\<^verbatim>\<open>wrap(ModuleOutputKind)\<close>, lines 41-53. The four cases cover the enumeration, so
  the \<^verbatim>\<open>report_fatal_error\<close> after the switch is not reached.\<close>

fun wrap_MOK :: "ModuleOutputKind \<Rightarrow> CXOutputKind" where
  "wrap_MOK ModuleFile = CXOutputKind_ModuleFile"
| "wrap_MOK DependencyFile = CXOutputKind_Dependencies"
| "wrap_MOK DependencyTargets = CXOutputKind_DependenciesTarget"
| "wrap_MOK DiagnosticSerializationFile = CXOutputKind_SerializedDiagnostics"

subsection \<open>Data\<close>

record ModuleID =
  ModuleName :: string
  ContextHash :: string

record ModuleDeps =
  MD_ID :: ModuleID
  MD_ClangModuleMapFile :: string
  MD_FileDeps :: "string list"
  MD_ClangModuleDeps :: "ModuleID list"
  MD_CanonicalCommandLine :: "string list"  \<comment> \<open>what \<^verbatim>\<open>getCanonicalCommandLine()\<close> returns\<close>

record Command =
  Executable :: string
  Arguments :: "string list"

record FullDependencies =
  FD_ID :: ModuleID
  FD_FileDeps :: "string list"
  FD_ClangModuleDeps :: "ModuleID list"
  FD_DriverCommandLine :: "string list"
  FD_Commands :: "Command list"

record FullDependenciesResult =
  FullDeps :: FullDependencies
  DiscoveredModules :: "ModuleDeps list"

record CXModuleDependency =
  CXM_Name :: string
  CXM_ContextHash :: string
  CXM_ModuleMapPath :: string
  CXM_FileDeps :: "string list"
  CXM_ModuleDeps :: "string list"
  CXM_BuildArguments :: "string list"

text \<open>A \<^verbatim>\<open>CXModuleDependencySet\<close>: \<^verbatim>\<open>Count\<close> is the length of the list \<^verbatim>\<open>Modules\<close>.
  (\<^verbatim>\<open>Count\<close> is an \<^verbatim>\<open>int\<close>; a set of more than \<open>2^31 - 1\<close> modules is outside this model.)\<close>

type_synonym CXModuleDependencySet = "CXModuleDependency list"

record CXFileDependencies =
  CXF_ContextHash :: string
  CXF_FileDeps :: "string list"
  CXF_ModuleDeps :: "string list"
  CXF_BuildArguments :: "string list"

record CXTranslationUnitCommand =
  CXT_ContextHash :: string
  CXT_FileDeps :: "string list"
  CXT_ModuleDeps :: "string list"
  CXT_Executable :: string
  CXT_BuildArguments :: "string list"

record CXFileDependencies_v4 =
  NumCommands :: nat
  Commands :: "CXTranslationUnitCommand list"

subsection \<open>Faults, events and the state outside the library\<close>

datatype fault =
  AssertionFailed string  \<comment> \<open>an \<^verbatim>\<open>assert\<close> whose condition is false\<close>
  | NullPointerWrite  \<comment> \<open>\<^verbatim>\<open>*error = ...\<close> with \<^verbatim>\<open>error == nullptr\<close>\<close>
  | BufferOverread nat nat  \<comment> \<open>a string of \<open>n\<close> bytes read from a buffer of \<open>m < n\<close> bytes\<close>
  | ArgvOverread int nat  \<comment> \<open>\<^verbatim>\<open>argc\<close> entries read from a shorter \<^verbatim>\<open>argv\<close> array\<close>

datatype event =
  MLO_call string string CXOutputKind nat
    \<comment> \<open>the lookup callback called with a module name, a context hash, an output kind
        and a buffer of that many bytes\<close>
  | Engine_call string "string list" "string option"
    \<comment> \<open>\<^verbatim>\<open>computeDependencies\<close> called with the working directory, the compilation and
        the module name\<close>
  | MDC_call CXModuleDependencySet  \<comment> \<open>the discovery callback called with a module set\<close>
  | HandleFullDeps_call FullDependencies  \<comment> \<open>the translation unit's result is built\<close>

text \<open>
  The state outside the library: whatever the two callbacks reach through their context
  pointers (\<open>ctx\<close>), the \<^verbatim>\<open>CXString\<close> that \<^verbatim>\<open>error\<close> points to when it is not null
  (\<open>None\<close> until it is first stored to), and the events so far, oldest first.
\<close>

record 'c world =
  ctx :: 'c
  errorCell :: "string option"
  events :: "event list"

text \<open>
  The caller's callbacks. \<open>MDC\<close> receives the module set. \<open>MLO\<close> receives the module
  name, the context hash, the output kind and the buffer (its length is the capacity
  passed as \<^verbatim>\<open>Len\<close>); it returns the length it reports and the bytes it stores from the
  start of the buffer. Both are taken to be pointers to functions that return.
\<close>

record 'c callbacks =
  MDC :: "'c \<Rightarrow> CXModuleDependencySet \<Rightarrow> 'c"
  MLO :: "'c \<Rightarrow> string \<Rightarrow> string \<Rightarrow> CXOutputKind \<Rightarrow> char list \<Rightarrow> nat \<times> char list \<times> 'c"

subsection \<open>The output path resolver\<close>

text \<open>Storing bytes from the start of a buffer: what does not fit is not stored, the rest
  of the buffer keeps its contents.\<close>

definition store_bytes :: "char list \<Rightarrow> char list \<Rightarrow> char list" where
  "store_bytes Buffer bytes = take (length Buffer) bytes @ drop (length bytes) Buffer"

text \<open>One call of \<^verbatim>\<open>MLO(MLOContext, name, hash, wrap(MOK), Buffer.data(), Buffer.size())\<close>:
  the reported length, the buffer after the call, and the world after the call.\<close>

definition call_MLO ::
  "'c callbacks \<Rightarrow> ModuleID \<Rightarrow> ModuleOutputKind \<Rightarrow> char list \<Rightarrow> 'c world
    \<Rightarrow> nat \<times> char list \<times> 'c world" where
  "call_MLO cb ID MOK Buffer w =
     (case MLO cb (ctx w) (ModuleName ID) (ContextHash ID) (wrap_MOK MOK) Buffer of
        (Len, bytes, c') \<Rightarrow>
          (Len, store_bytes Buffer bytes,
           w\<lparr>ctx := c',
             events := events w @
               [MLO_call (ModuleName ID) (ContextHash ID) (wrap_MOK MOK) (length Buffer)]\<rparr>))"

text \<open>\<^verbatim>\<open>Buffer.resize(Len)\<close>: new elements are zero, a shorter size truncates.\<close>

definition resize :: "char list \<Rightarrow> nat \<Rightarrow> char list" where
  "resize Buffer n = take n Buffer @ replicate (n - length Buffer) (CHR 0x00)"

text \<open>\<^verbatim>\<open>std::string(Buffer.begin(), Len)\<close>: the first \<open>Len\<close> bytes of the buffer. With
  \<open>Len\<close> beyond the buffer's size the constructor reads past its end.\<close>

definition string_of_buffer :: "char list \<Rightarrow> nat \<Rightarrow> fault + string" where
  "string_of_buffer Buffer Len =
     (if Len \<le> length Buffer then Inr (take Len Buffer)
      else Inl (BufferOverread Len (length Buffer)))"

text \<open>The static \<^verbatim>\<open>lookupModuleOutput\<close>, lines 276-288. The result is the string, or the
  fault of its construction, with the world as the calls of the callback left it.\<close>

definition lookupModuleOutput ::
  "'c callbacks \<Rightarrow> ModuleID \<Rightarrow> ModuleOutputKind \<Rightarrow> 'c world \<Rightarrow> (fault + string) \<times> 'c world" where
  "lookupModuleOutput cb ID MOK w =
     (case call_MLO cb ID MOK (replicate 256 (CHR 0x00)) w of
        (Len, Buffer, w1) \<Rightarrow>
          if Len > length Buffer then
            (case call_MLO cb ID MOK (resize Buffer Len) w1 of
               (Len2, Buffer2, w2) \<Rightarrow> (string_of_buffer Buffer2 Len2, w2))
          else (string_of_buffer Buffer Len, w1))"

text \<open>\<^verbatim>\<open>OutputLookup::lookupModuleOutput\<close>, lines 290-299. The member \<^verbatim>\<open>PCMPaths\<close> is a
  map from module identities to paths. \<^verbatim>\<open>insert({ID, ""})\<close> adds the key with an empty
  path when the map does not have it; only then is the path looked up and stored.\<close>

type_synonym PCMPaths = "ModuleID \<rightharpoonup> string"

definition OutputLookup_lookupModuleOutput ::
  "'c callbacks \<Rightarrow> ModuleID \<Rightarrow> ModuleOutputKind \<Rightarrow> PCMPaths \<times> 'c world
    \<Rightarrow> (fault + string) \<times> PCMPaths \<times> 'c world" where
  "OutputLookup_lookupModuleOutput cb ID MOK s =
     (case s of (PCMPaths, w) \<Rightarrow>
        if MOK \<noteq> ModuleFile then
          (case lookupModuleOutput cb ID MOK w of (r, w') \<Rightarrow> (r, PCMPaths, w'))
        else
          (case PCMPaths ID of
             Some p \<Rightarrow> (Inr p, PCMPaths, w)
           | None \<Rightarrow>
               (case lookupModuleOutput cb ID MOK w of
                  (Inl f, w') \<Rightarrow> (Inl f, PCMPaths(ID \<mapsto> []), w')
                | (Inr p, w') \<Rightarrow> (Inr p, PCMPaths(ID \<mapsto> p), w'))))"

subsection \<open>The scanning engine\<close>

text \<open>
  \<^verbatim>\<open>DependencyScanningWorker\<close> and \<^verbatim>\<open>FullDependencyConsumer\<close> are declared in headers this
  file includes and defined elsewhere: they are parameters here. While they run they may
  call \<^verbatim>\<open>LookupOutput\<close>, the closure over \<^verbatim>\<open>OL.lookupModuleOutput\<close> they were given, any
  number of times, each call depending on the paths returned so far. So what they
  compute is a tree: a result, or a lookup and a continuation for the path it returns.
\<close>

datatype 'r scanning =
  Done 'r
  | LookupOutput ModuleID ModuleOutputKind "string \<Rightarrow> 'r scanning"

text \<open>Running such a computation against the resolver \<^verbatim>\<open>OL\<close>; a fault in a lookup ends it.\<close>

primrec run_scanning ::
  "'c callbacks \<Rightarrow> 'r scanning \<Rightarrow> PCMPaths \<times> 'c world \<Rightarrow> (fault + 'r) \<times> PCMPaths \<times> 'c world" where
  "run_scanning cb (Done r) = (\<lambda>s. (Inr r, s))"
| "run_scanning cb (LookupOutput ID MOK k) =
     (\<lambda>s. case OutputLookup_lookupModuleOutput cb ID MOK s of
             (Inl f, s') \<Rightarrow> (Inl f, s')
           | (Inr p, s') \<Rightarrow> run_scanning cb (k p) s')"

text \<open>
  A worker: its format, the constructor of the consumer from the set \<^verbatim>\<open>AlreadySeen\<close>
  (\<open>'k\<close> is the consumer's state), the scan, which ends with the message of its
  \<^verbatim>\<open>llvm::Error\<close> (\<open>None\<close> for success) and the consumer it filled, and the two ways of
  taking the result out of the consumer. \<^verbatim>\<open>AlreadySeen\<close> is declared as a set of
  strings; how an identity becomes a key is the consumer's business, so the set is one of
  module identities here.
\<close>

record 'k DependencyScanningWorker =
  getFormat :: ScanningOutputFormat
  FullDependencyConsumer :: "ModuleID set \<Rightarrow> 'k"
  computeDependencies ::
    "string \<Rightarrow> string list \<Rightarrow> 'k \<Rightarrow> string option \<Rightarrow> (string option \<times> 'k) scanning"
  getFullDependenciesLegacyDriverCommand :: "'k \<Rightarrow> string list \<Rightarrow> FullDependenciesResult scanning"
  takeFullDependencies :: "'k \<Rightarrow> FullDependenciesResult scanning"

subsection \<open>Assembling and delivering the result\<close>

text \<open>The encoding of a module identity in every \<^verbatim>\<open>ModuleDeps\<close> string set, lines 151, 231
  and 260: \<^verbatim>\<open>MID.ModuleName + ":" + MID.ContextHash\<close>.\<close>

definition encodeModuleID :: "ModuleID \<Rightarrow> string" where
  "encodeModuleID MID = ModuleName MID @ '':'' @ ContextHash MID"

text \<open>The body of the loop at lines 142-154: one \<^verbatim>\<open>CXModuleDependency\<close> from one
  \<^verbatim>\<open>ModuleDeps\<close>.\<close>

definition make_CXModuleDependency :: "ModuleDeps \<Rightarrow> CXModuleDependency" where
  "make_CXModuleDependency MD =
     \<lparr>CXM_Name = ModuleName (MD_ID MD),
      CXM_ContextHash = ContextHash (MD_ID MD),
      CXM_ModuleMapPath = MD_ClangModuleMapFile MD,
      CXM_FileDeps = MD_FileDeps MD,
      CXM_ModuleDeps = map encodeModuleID (MD_ClangModuleDeps MD),
      CXM_BuildArguments = MD_CanonicalCommandLine MD\<rparr>"

text \<open>Lines 138-156: when there are discovered modules, they are packaged, in their
  order, into one module set and the discovery callback is called with it.\<close>

definition notify_discovered :: "'c callbacks \<Rightarrow> ModuleDeps list \<Rightarrow> 'c world \<Rightarrow> 'c world" where
  "notify_discovered cb Discovered w =
     (if Discovered \<noteq> [] then
        (let MDS = map make_CXModuleDependency Discovered
         in w\<lparr>ctx := MDC cb (ctx w) MDS, events := events w @ [MDC_call MDS]\<rparr>)
      else w)"

text \<open>\<^verbatim>\<open>if (error) *error = ...\<close>: the store happens when the pointer is not null.
  The parameter \<open>error\<close> says whether the pointer is not null.\<close>

definition guarded_store :: "bool \<Rightarrow> string \<Rightarrow> 'c world \<Rightarrow> 'c world" where
  "guarded_store error msg w = (if error then w\<lparr>errorCell := Some msg\<rparr> else w)"

text \<open>
  \<^verbatim>\<open>getFullDependencies\<close>, lines 116-160. \<^verbatim>\<open>HandleFullDeps\<close> is the caller's closure; it
  stores its result in a variable of the caller, which is the second component of the
  value returned here, next to the \<^verbatim>\<open>bool\<close> the function returns.
\<close>

definition getFullDependencies ::
  "'c callbacks \<Rightarrow> 'k DependencyScanningWorker \<Rightarrow> string list \<Rightarrow> string \<Rightarrow> bool \<Rightarrow> bool
    \<Rightarrow> string option \<Rightarrow> (FullDependencies \<Rightarrow> fault + 'r) \<Rightarrow> PCMPaths \<times> 'c world
    \<Rightarrow> (fault + bool \<times> 'r option) \<times> PCMPaths \<times> 'c world" where
  "getFullDependencies cb Worker Compilation WorkingDirectory error DeprecatedDriverCommand
      ModuleNameArg HandleFullDeps s =
     (case s of (OL, w) \<Rightarrow>
        (let AlreadySeen = {};
             Consumer = FullDependencyConsumer Worker AlreadySeen
         in (case run_scanning cb
                    (computeDependencies Worker WorkingDirectory Compilation Consumer ModuleNameArg)
                    (OL, w\<lparr>events := events w @
                                [Engine_call WorkingDirectory Compilation ModuleNameArg]\<rparr>) of
               (Inl f, s1) \<Rightarrow> (Inl f, s1)
             | (Inr (Some msg, Consumer1), (OL1, w1)) \<Rightarrow>
                 (if error then (Inr (False, None), (OL1, w1\<lparr>errorCell := Some msg\<rparr>))
                  else (Inl NullPointerWrite, (OL1, w1)))
             | (Inr (None, Consumer1), s1) \<Rightarrow>
                 (case run_scanning cb
                         (if DeprecatedDriverCommand
                          then getFullDependenciesLegacyDriverCommand Worker Consumer1 Compilation
                          else takeFullDependencies Worker Consumer1) s1 of
                    (Inl f, s2) \<Rightarrow> (Inl f, s2)
                  | (Inr FDR, (OL2, w2)) \<Rightarrow>
                      (let w3 = notify_discovered cb (DiscoveredModules FDR) w2;
                           w4 = w3\<lparr>events := events w3 @ [HandleFullDeps_call (FullDeps FDR)]\<rparr>
                       in (case HandleFullDeps (FullDeps FDR) of
                             Inl f \<Rightarrow> (Inl f, (OL2, w4))
                           | Inr r \<Rightarrow> (Inr (True, Some r), (OL2, w4))))))))"

text \<open>
  \<^verbatim>\<open>getFileDependencies\<close>, lines 162-197. \<open>W\<close> is the worker handle and \<open>argv\<close> the
  argument array, \<open>None\<close> when null; the length of the list is the extent of the array.
\<close>

definition getFileDependencies ::
  "'c callbacks \<Rightarrow> 'k DependencyScanningWorker option \<Rightarrow> int \<Rightarrow> string list option \<Rightarrow> string
    \<Rightarrow> bool \<Rightarrow> bool \<Rightarrow> string option \<Rightarrow> (FullDependencies \<Rightarrow> fault + 'r)
    \<Rightarrow> PCMPaths \<times> 'c world \<Rightarrow> (fault + bool \<times> 'r option) \<times> PCMPaths \<times> 'c world" where
  "getFileDependencies cb W argc argv WorkingDirectory error DeprecatedDriverCommand
      ModuleNameArg HandleFullDeps s =
     (case s of (OL, w) \<Rightarrow>
        (case W of
           None \<Rightarrow>
             (Inr (False, None),
              (OL, guarded_store error ''missing CXDependencyScannerWorker'' w))
         | Some Worker \<Rightarrow>
             (case argv of
                None \<Rightarrow> (Inr (False, None), (OL, guarded_store error ''invalid argc or argv'' w))
              | Some args \<Rightarrow>
                  (if argc < 2 then
                     (Inr (False, None), (OL, guarded_store error ''invalid argc or argv'' w))
                   else
                     (let w1 = guarded_store error [] w
                      in (if getFormat Worker \<noteq> Full then
                            (Inr (False, None),
                             (OL, guarded_store error
                                    ''unsupported CXDependencyMode for this API'' w1))
                          else if nat argc \<le> length args then
                            getFullDependencies cb Worker (take (nat argc) args)
                              WorkingDirectory error DeprecatedDriverCommand ModuleNameArg
                              HandleFullDeps (OL, w1)
                          else (Inl (ArgvOverread argc (length args)), (OL, w1))))))))"

subsection \<open>The two entry points\<close>

text \<open>
  \<^verbatim>\<open>assert(c)\<close> depends on how the file is compiled: with \<^verbatim>\<open>NDEBUG\<close> defined it is empty,
  without it a false condition ends the call. The parameter \<open>NDEBUG\<close> of the following
  definitions says which of the two builds runs.
\<close>

definition assert_fails :: "bool \<Rightarrow> bool \<Rightarrow> bool" where
  "assert_fails NDEBUG c \<longleftrightarrow> \<not> NDEBUG \<and> \<not> c"

text \<open>The closure passed by the v3 entry point, lines 227-237.\<close>

definition handle_v3 :: "bool \<Rightarrow> FullDependencies \<Rightarrow> fault + CXFileDependencies" where
  "handle_v3 NDEBUG FD =
     (if assert_fails NDEBUG (FD_DriverCommandLine FD \<noteq> [])
      then Inl (AssertionFailed ''!FD.DriverCommandLine.empty()'')
      else Inr \<lparr>CXF_ContextHash = ContextHash (FD_ID FD),
                CXF_FileDeps = FD_FileDeps FD,
                CXF_ModuleDeps = map encodeModuleID (FD_ClangModuleDeps FD),
                CXF_BuildArguments = FD_DriverCommandLine FD\<rparr>)"

text \<open>The closure passed by the v4 entry point, lines 256-271. The \<^verbatim>\<open>Reserved\<close> words of
  a command, which are set to zero, are left out.\<close>

definition handle_v4 :: "bool \<Rightarrow> FullDependencies \<Rightarrow> fault + CXFileDependencies_v4" where
  "handle_v4 NDEBUG FD =
     (if assert_fails NDEBUG (FD_DriverCommandLine FD = [])
      then Inl (AssertionFailed ''FD.DriverCommandLine.empty()'')
      else Inr \<lparr>NumCommands = length (FD_Commands FD),
                Commands =
                  map (\<lambda>C. \<lparr>CXT_ContextHash = ContextHash (FD_ID FD),
                            CXT_FileDeps = FD_FileDeps FD,
                            CXT_ModuleDeps = map encodeModuleID (FD_ClangModuleDeps FD),
                            CXT_Executable = Executable C,
                            CXT_BuildArguments = Arguments C\<rparr>)
                      (FD_Commands FD)\<rparr>)"

text \<open>The end of both entry points: \<^verbatim>\<open>assert(!Success || Result); return Result;\<close>.\<close>

definition return_result ::
  "bool \<Rightarrow> (fault + bool \<times> 'r option) \<times> PCMPaths \<times> 'c world
    \<Rightarrow> (fault + 'r option) \<times> 'c world" where
  "return_result NDEBUG x =
     (case x of
        (Inl f, (OL, w)) \<Rightarrow> (Inl f, w)
      | (Inr (Success, Result), (OL, w)) \<Rightarrow>
          if assert_fails NDEBUG (\<not> Success \<or> Result \<noteq> None)
          then (Inl (AssertionFailed ''!Success || Result''), w)
          else (Inr Result, w))"

text \<open>
  \<^verbatim>\<open>clang_experimental_DependencyScannerWorker_getFileDependencies_v3\<close>, lines 213-240,
  and \<^verbatim>\<open>..._v4\<close>, lines 242-274. Each call has its own \<^verbatim>\<open>OutputLookup OL\<close>, with an empty
  \<^verbatim>\<open>PCMPaths\<close>. The result is the pointer returned, \<open>None\<close> when null.
\<close>

definition clang_experimental_DependencyScannerWorker_getFileDependencies_v3 ::
  "bool \<Rightarrow> 'c callbacks \<Rightarrow> 'k DependencyScanningWorker option \<Rightarrow> int \<Rightarrow> string list option
    \<Rightarrow> string option \<Rightarrow> string \<Rightarrow> bool \<Rightarrow> 'c world
    \<Rightarrow> (fault + CXFileDependencies option) \<times> 'c world" where
  "clang_experimental_DependencyScannerWorker_getFileDependencies_v3
      NDEBUG cb W argc argv ModuleNameArg WorkingDirectory error w =
     return_result NDEBUG
       (getFileDependencies cb W argc argv WorkingDirectory error True ModuleNameArg
          (handle_v3 NDEBUG) (Map.empty, w))"

definition clang_experimental_DependencyScannerWorker_getFileDependencies_v4 ::
  "bool \<Rightarrow> 'c callbacks \<Rightarrow> 'k DependencyScanningWorker option \<Rightarrow> int \<Rightarrow> string list option
    \<Rightarrow> string option \<Rightarrow> string \<Rightarrow> bool \<Rightarrow> 'c world
    \<Rightarrow> (fault + CXFileDependencies_v4 option) \<times> 'c world" where
  "clang_experimental_DependencyScannerWorker_getFileDependencies_v4
      NDEBUG cb W argc argv ModuleNameArg WorkingDirectory error w =
     return_result NDEBUG
       (getFileDependencies cb W argc argv WorkingDirectory error False ModuleNameArg
          (handle_v4 NDEBUG) (Map.empty, w))"

subsection \<open>Reading the events\<close>

fun is_MLO_call :: "event \<Rightarrow> bool" where
  "is_MLO_call (MLO_call n h k c) = True"
| "is_MLO_call e = False"




text \<open>Two successive calls of \<^verbatim>\<open>OL.lookupModuleOutput\<close> with the same arguments: the two
  paths, or the fault of the call that did not return one.\<close>

definition resolve_twice ::
  "'c callbacks \<Rightarrow> ModuleID \<Rightarrow> ModuleOutputKind \<Rightarrow> PCMPaths \<times> 'c world
    \<Rightarrow> (fault + string \<times> string) \<times> PCMPaths \<times> 'c world" where
  "resolve_twice cb ID MOK s =
     (case OutputLookup_lookupModuleOutput cb ID MOK s of
        (Inl f, s1) \<Rightarrow> (Inl f, s1)
      | (Inr p1, s1) \<Rightarrow>
          (case OutputLookup_lookupModuleOutput cb ID MOK s1 of
             (Inl f, s2) \<Rightarrow> (Inl f, s2)
           | (Inr p2, s2) \<Rightarrow> (Inr (p1, p2), s2)))"

text \<open>Every value a computation of the engine can end with.\<close>

primrec outcomes :: "'r scanning \<Rightarrow> 'r set" where
  "outcomes (Done r) = {r}"
| "outcomes (LookupOutput ID MOK k) = (\<Union>p. outcomes (k p))"

subsection \<open>The decoding, as the specification describes it\<close>

text \<open>The decoding of the specification's round trip: the string is split at its last
  colon; \<open>None\<close> when it has no colon.\<close>

fun splitLastColon :: "string \<Rightarrow> (string \<times> string) option" where
  "splitLastColon [] = None"
| "splitLastColon (c # cs) =
     (case splitLastColon cs of
        Some (n, h) \<Rightarrow> Some (c # n, h)
      | None \<Rightarrow> if c = CHR '':'' then Some ([], cs) else None)"

subsection \<open>Concrete callers and engines\<close>

text \<open>A caller whose context counts the calls of its lookup callback; the callback
  reports the length of a fixed path and stores the path.\<close>

definition path_callbacks :: "string \<Rightarrow> nat callbacks" where
  "path_callbacks path =
     \<lparr>MDC = (\<lambda>c MDS. c), MLO = (\<lambda>c n h k Buffer. (length path, path, Suc c))\<rparr>"

text \<open>A lookup callback that reports 300 bytes for a buffer of at most 256 bytes and 400
  bytes for any larger buffer.\<close>

definition growing_callbacks :: "nat callbacks" where
  "growing_callbacks =
     \<lparr>MDC = (\<lambda>c MDS. c),
      MLO = (\<lambda>c n h k Buffer. (if length Buffer \<le> 256 then 300 else 400, [], Suc c))\<rparr>"

definition world0 :: "nat world" where
  "world0 = \<lparr>ctx = 0, errorCell = None, events = []\<rparr>"

definition module_M :: ModuleID where
  "module_M = \<lparr>ModuleName = ''M'', ContextHash = ''H1''\<rparr>"

definition deps_M :: ModuleDeps where
  "deps_M = \<lparr>MD_ID = module_M, MD_ClangModuleMapFile = ''module.modulemap'',
             MD_FileDeps = [''m.h''], MD_ClangModuleDeps = [],
             MD_CanonicalCommandLine = [''-cc1'']\<rparr>"

definition tu_deps :: "string list \<Rightarrow> Command list \<Rightarrow> FullDependencies" where
  "tu_deps DriverCommandLine Cmds =
     \<lparr>FD_ID = \<lparr>ModuleName = [], ContextHash = ''H0''\<rparr>, FD_FileDeps = [''a.h''],
      FD_ClangModuleDeps = [module_M], FD_DriverCommandLine = DriverCommandLine,
      FD_Commands = Cmds\<rparr>"

text \<open>The command line of the scans below.\<close>

definition scan_command :: "string list" where
  "scan_command = [''clang'', ''-c'', ''a.cpp'']"

text \<open>An engine that makes no lookups: it fails with the given message, or succeeds and
  reports the given modules; in legacy mode its result has a driver command line, in
  the other mode one compile command.\<close>

definition stub_worker ::
  "ScanningOutputFormat \<Rightarrow> string option \<Rightarrow> ModuleDeps list \<Rightarrow> unit DependencyScanningWorker" where
  "stub_worker Format failure Discovered =
     \<lparr>getFormat = Format,
      FullDependencyConsumer = (\<lambda>AlreadySeen. ()),
      computeDependencies = (\<lambda>WorkingDirectory Compilation Consumer Hint. Done (failure, ())),
      getFullDependenciesLegacyDriverCommand =
        (\<lambda>Consumer Compilation.
           Done \<lparr>FullDeps = tu_deps [''-fsyntax-only''] [], DiscoveredModules = Discovered\<rparr>),
      takeFullDependencies =
        (\<lambda>Consumer.
           Done \<lparr>FullDeps = tu_deps [] [\<lparr>Executable = ''clang'', Arguments = [''-cc1'']\<rparr>],
                 DiscoveredModules = Discovered\<rparr>)\<rparr>"

text \<open>A caller whose context is the list of the module sets its discovery callback has
  received, oldest first.\<close>

definition recording_callbacks :: "CXModuleDependencySet list callbacks" where
  "recording_callbacks =
     \<lparr>MDC = (\<lambda>c MDS. c @ [MDS]), MLO = (\<lambda>c n h k Buffer. (0, [], c))\<rparr>"

definition recording_world0 :: "CXModuleDependencySet list world" where
  "recording_world0 = \<lparr>ctx = [], errorCell = None, events = []\<rparr>"


section \<open>Properties of the output path resolver\<close>

lemma length_store_bytes: "length (store_bytes Buffer bytes) = length Buffer"
  by (simp add: store_bytes_def)

lemma length_resize: "length (resize Buffer n) = n"
  by (simp add: resize_def)

text \<open>One resolution calls the callback once with 256 bytes, or twice, the second time
  with a buffer of the length first reported.\<close>

lemma lookupModuleOutput_events:
  "events (snd (lookupModuleOutput cb ID MOK w)) =
      events w @ [MLO_call (ModuleName ID) (ContextHash ID) (wrap_MOK MOK) 256]
   \<or> (\<exists>Len>256. events (snd (lookupModuleOutput cb ID MOK w)) =
         events w @ [MLO_call (ModuleName ID) (ContextHash ID) (wrap_MOK MOK) 256,
                     MLO_call (ModuleName ID) (ContextHash ID) (wrap_MOK MOK) Len])"
  by (auto simp: lookupModuleOutput_def call_MLO_def length_store_bytes length_resize
      split: prod.splits)

text \<open>
  Claim C3, as stated, fails: two calls of the resolver for the module file of one module
  call the callback twice, not once, when the path is longer than 256 bytes. Both calls
  of the callback belong to the first resolution (the second one is the retry with the
  larger buffer).
\<close>

theorem resolve_twice_module_file_two_callback_calls:
  "events (snd (snd (resolve_twice (path_callbacks (replicate 300 (CHR ''a''))) module_M
       ModuleFile (Map.empty, world0))))
     = [MLO_call ''M'' ''H1'' CXOutputKind_ModuleFile 256,
        MLO_call ''M'' ''H1'' CXOutputKind_ModuleFile 300]
   \<and> length (filter is_MLO_call (events (snd (snd (resolve_twice
        (path_callbacks (replicate 300 (CHR ''a''))) module_M ModuleFile (Map.empty, world0))))))
     = 2"
  by (simp add: resolve_twice_def OutputLookup_lookupModuleOutput_def lookupModuleOutput_def
      call_MLO_def path_callbacks_def world0_def module_M_def
      length_store_bytes length_resize string_of_buffer_def)

text \<open>
  Claim C3, amended. On a resolver that has no path for the module yet, a call for the
  module file that returns a path is followed by this: a second call with the same
  module returns the same path and changes nothing, so it does not call the callback.
  The first call called the callback once with a buffer of 256 bytes, or twice, the
  second time with a larger buffer. For every other output kind a call, whatever the
  cache holds, is one resolution by the callback (which starts with a call with 256
  bytes) and leaves the cache as it was.
\<close>

theorem OutputLookup_caches_module_file:
  assumes fresh: "PCMPaths ID = None"
    and first: "OutputLookup_lookupModuleOutput cb ID ModuleFile (PCMPaths, w) = (Inr p, s1)"
  shows "OutputLookup_lookupModuleOutput cb ID ModuleFile s1 = (Inr p, s1)
       \<and> (events (snd s1) =
            events w @ [MLO_call (ModuleName ID) (ContextHash ID) CXOutputKind_ModuleFile 256]
          \<or> (\<exists>Len>256. events (snd s1) =
                events w @ [MLO_call (ModuleName ID) (ContextHash ID) CXOutputKind_ModuleFile 256,
                            MLO_call (ModuleName ID) (ContextHash ID) CXOutputKind_ModuleFile Len]))
       \<and> (\<forall>MOK P' w'. MOK \<noteq> ModuleFile \<longrightarrow>
            OutputLookup_lookupModuleOutput cb ID MOK (P', w') =
              (fst (lookupModuleOutput cb ID MOK w'), P', snd (lookupModuleOutput cb ID MOK w'))
          \<and> (\<exists>rest. events (snd (lookupModuleOutput cb ID MOK w')) =
                events w' @ MLO_call (ModuleName ID) (ContextHash ID) (wrap_MOK MOK) 256 # rest))"
proof -
  from fresh first obtain w1 where
    look: "lookupModuleOutput cb ID ModuleFile w = (Inr p, w1)"
    and s1: "s1 = (PCMPaths(ID \<mapsto> p), w1)"
    by (auto simp: OutputLookup_lookupModuleOutput_def split: prod.splits sum.splits)
  have again: "OutputLookup_lookupModuleOutput cb ID ModuleFile s1 = (Inr p, s1)"
    by (simp add: s1 OutputLookup_lookupModuleOutput_def)
  have calls: "events (snd s1) =
            events w @ [MLO_call (ModuleName ID) (ContextHash ID) CXOutputKind_ModuleFile 256]
          \<or> (\<exists>Len>256. events (snd s1) =
                events w @ [MLO_call (ModuleName ID) (ContextHash ID) CXOutputKind_ModuleFile 256,
                            MLO_call (ModuleName ID) (ContextHash ID) CXOutputKind_ModuleFile Len])"
    using lookupModuleOutput_events [of cb ID ModuleFile w] by (simp add: s1 look)
  have other: "OutputLookup_lookupModuleOutput cb ID MOK (P', w') =
              (fst (lookupModuleOutput cb ID MOK w'), P', snd (lookupModuleOutput cb ID MOK w'))
          \<and> (\<exists>rest. events (snd (lookupModuleOutput cb ID MOK w')) =
                events w' @ MLO_call (ModuleName ID) (ContextHash ID) (wrap_MOK MOK) 256 # rest)"
    if "MOK \<noteq> ModuleFile" for MOK P' w'
    using that lookupModuleOutput_events [of cb ID MOK w']
    by (auto simp: OutputLookup_lookupModuleOutput_def split: prod.splits)
  from again calls other show ?thesis by blast
qed

theorem OutputLookup_caches_module_file_witness:
  "OutputLookup_lookupModuleOutput (path_callbacks ''/M.pcm'') module_M ModuleFile
      (Map.empty(module_M \<mapsto> ''/M.pcm''),
       \<lparr>ctx = 1, errorCell = None, events = [MLO_call ''M'' ''H1'' CXOutputKind_ModuleFile 256]\<rparr>)
     = (Inr ''/M.pcm'', Map.empty(module_M \<mapsto> ''/M.pcm''),
       \<lparr>ctx = 1, errorCell = None, events = [MLO_call ''M'' ''H1'' CXOutputKind_ModuleFile 256]\<rparr>)
   \<and> OutputLookup_lookupModuleOutput (path_callbacks ''/M.pcm'') module_M DependencyFile
        (Map.empty(module_M \<mapsto> ''/M.pcm''), world0)
     = (fst (lookupModuleOutput (path_callbacks ''/M.pcm'') module_M DependencyFile world0),
        Map.empty(module_M \<mapsto> ''/M.pcm''),
        snd (lookupModuleOutput (path_callbacks ''/M.pcm'') module_M DependencyFile world0))"
proof -
  have fresh: "(Map.empty :: PCMPaths) module_M = None" by simp
  have first: "OutputLookup_lookupModuleOutput (path_callbacks ''/M.pcm'') module_M ModuleFile
      (Map.empty, world0)
     = (Inr ''/M.pcm'', Map.empty(module_M \<mapsto> ''/M.pcm''),
       \<lparr>ctx = 1, errorCell = None, events = [MLO_call ''M'' ''H1'' CXOutputKind_ModuleFile 256]\<rparr>)"
    by (simp add: OutputLookup_lookupModuleOutput_def lookupModuleOutput_def call_MLO_def
        path_callbacks_def world0_def module_M_def store_bytes_def string_of_buffer_def)
  note t = OutputLookup_caches_module_file [OF fresh first]
  from t have again: "OutputLookup_lookupModuleOutput (path_callbacks ''/M.pcm'') module_M ModuleFile
      (Map.empty(module_M \<mapsto> ''/M.pcm''),
       \<lparr>ctx = 1, errorCell = None, events = [MLO_call ''M'' ''H1'' CXOutputKind_ModuleFile 256]\<rparr>)
     = (Inr ''/M.pcm'', Map.empty(module_M \<mapsto> ''/M.pcm''),
       \<lparr>ctx = 1, errorCell = None, events = [MLO_call ''M'' ''H1'' CXOutputKind_ModuleFile 256]\<rparr>)"
    by (rule conjunct1)
  have "DependencyFile \<noteq> ModuleFile" by simp
  with t have other: "OutputLookup_lookupModuleOutput (path_callbacks ''/M.pcm'') module_M
        DependencyFile (Map.empty(module_M \<mapsto> ''/M.pcm''), world0)
     = (fst (lookupModuleOutput (path_callbacks ''/M.pcm'') module_M DependencyFile world0),
        Map.empty(module_M \<mapsto> ''/M.pcm''),
        snd (lookupModuleOutput (path_callbacks ''/M.pcm'') module_M DependencyFile world0))"
    by blast
  from again other show ?thesis by (rule conjI)
qed

text \<open>
  Claim C4. Let the first call of the callback, with the zeroed buffer of 256 bytes,
  report \<open>Len\<close>. If \<open>Len\<close> is at most 256, the callback is called exactly once and the
  string returned has length \<open>Len\<close>. If \<open>Len\<close> exceeds 256, the callback is called
  exactly once more, with a buffer of exactly \<open>Len\<close> bytes; when that second call
  reports a length \<open>Len2\<close> within the buffer, the string returned has length \<open>Len2\<close>.
  A callback that reports 300 both times is thus called with 256 and then with 300
  bytes, and the string has length 300 (the instance below).
\<close>

theorem lookupModuleOutput_negotiation:
  assumes first: "MLO cb (ctx w) (ModuleName ID) (ContextHash ID) (wrap_MOK MOK)
                    (replicate 256 (CHR 0x00)) = (Len, bytes, c1)"
    and second: "MLO cb c1 (ModuleName ID) (ContextHash ID) (wrap_MOK MOK)
                    (resize (store_bytes (replicate 256 (CHR 0x00)) bytes) Len)
                  = (Len2, bytes2, c2)"
  shows "(Len \<le> 256 \<longrightarrow>
            events (snd (lookupModuleOutput cb ID MOK w)) =
              events w @ [MLO_call (ModuleName ID) (ContextHash ID) (wrap_MOK MOK) 256]
          \<and> (\<exists>s. fst (lookupModuleOutput cb ID MOK w) = Inr s \<and> length s = Len))
       \<and> (256 < Len \<longrightarrow>
            events (snd (lookupModuleOutput cb ID MOK w)) =
              events w @ [MLO_call (ModuleName ID) (ContextHash ID) (wrap_MOK MOK) 256,
                          MLO_call (ModuleName ID) (ContextHash ID) (wrap_MOK MOK) Len]
          \<and> (Len2 \<le> Len \<longrightarrow>
                (\<exists>s. fst (lookupModuleOutput cb ID MOK w) = Inr s \<and> length s = Len2)))"
  using first second
  by (auto simp: lookupModuleOutput_def call_MLO_def length_store_bytes length_resize
      string_of_buffer_def)

theorem lookupModuleOutput_negotiation_witness:
  "events (snd (lookupModuleOutput (path_callbacks (replicate 300 (CHR ''a''))) module_M
       ModuleFile world0))
     = [MLO_call ''M'' ''H1'' CXOutputKind_ModuleFile 256,
        MLO_call ''M'' ''H1'' CXOutputKind_ModuleFile 300]
   \<and> (\<exists>s. fst (lookupModuleOutput (path_callbacks (replicate 300 (CHR ''a''))) module_M
                ModuleFile world0) = Inr s
          \<and> length s = 300)"
  using lookupModuleOutput_negotiation
    [of "path_callbacks (replicate 300 (CHR ''a''))" world0 module_M ModuleFile
        300 "replicate 300 (CHR ''a'')" 1 300 "replicate 300 (CHR ''a'')" 2]
  by (simp add: path_callbacks_def world0_def module_M_def)

text \<open>
  Claim C5 does not hold of the code. A callback that reports 300 bytes for the buffer of
  256 bytes and 400 bytes for the buffer of 300 bytes is called twice; the length of its
  second report is not compared with the buffer, and the result string is built from 400
  bytes starting at a buffer of 300 bytes.
\<close>

theorem lookupModuleOutput_second_misreport:
  "fst (lookupModuleOutput growing_callbacks module_M ModuleFile world0)
     = Inl (BufferOverread 400 300)
   \<and> events (snd (lookupModuleOutput growing_callbacks module_M ModuleFile world0))
       = [MLO_call ''M'' ''H1'' CXOutputKind_ModuleFile 256,
          MLO_call ''M'' ''H1'' CXOutputKind_ModuleFile 300]"
  by (simp add: lookupModuleOutput_def call_MLO_def growing_callbacks_def world0_def
      module_M_def length_store_bytes length_resize string_of_buffer_def)

section \<open>The encoding of module identities\<close>

lemma splitLastColon_no_colon: "CHR '':'' \<notin> set h \<Longrightarrow> splitLastColon h = None"
  by (induction h) auto

lemma splitLastColon_append:
  "CHR '':'' \<notin> set h \<Longrightarrow> splitLastColon (n @ CHR '':'' # h) = Some (n, h)"
  by (induction n) (simp_all add: splitLastColon_no_colon)

text \<open>
  Claim C6. In the module set handed to the discovery callback, in the v3 result and in
  every command of the v4 result, the \<^verbatim>\<open>ModuleDeps\<close> strings are the encodings of the
  module identities, in order; an encoding is the name, one colon, the context hash;
  and when the context hash has no colon, splitting the encoding at its last colon gives
  back the name and the context hash.
\<close>

theorem moduleDeps_encoding_roundtrip:
  "CXM_ModuleDeps (make_CXModuleDependency MD) = map encodeModuleID (MD_ClangModuleDeps MD)
   \<and> (\<forall>R. handle_v3 NDEBUG FD = Inr R \<longrightarrow> CXF_ModuleDeps R = map encodeModuleID (FD_ClangModuleDeps FD))
   \<and> (\<forall>R. handle_v4 NDEBUG FD = Inr R \<longrightarrow>
         (\<forall>C \<in> set (Commands R). CXT_ModuleDeps C = map encodeModuleID (FD_ClangModuleDeps FD)))
   \<and> encodeModuleID MID = ModuleName MID @ '':'' @ ContextHash MID
   \<and> (CHR '':'' \<notin> set (ContextHash MID) \<longrightarrow>
         splitLastColon (encodeModuleID MID) = Some (ModuleName MID, ContextHash MID))"
  by (auto simp: make_CXModuleDependency_def handle_v3_def handle_v4_def encodeModuleID_def
      splitLastColon_append split: if_splits)

theorem moduleDeps_encoding_roundtrip_witness:
  "encodeModuleID module_M = ''M:H1''
   \<and> splitLastColon (encodeModuleID module_M) = Some (''M'', ''H1'')
   \<and> CXM_ModuleDeps (make_CXModuleDependency (deps_M\<lparr>MD_ClangModuleDeps := [module_M]\<rparr>))
       = [encodeModuleID module_M]"
  using moduleDeps_encoding_roundtrip
    [of "deps_M\<lparr>MD_ClangModuleDeps := [module_M]\<rparr>" False "tu_deps [] []" module_M]
  by (simp add: module_M_def deps_M_def)

section \<open>Scans\<close>

lemma lookupModuleOutput_world:
  "\<exists>pre. events (snd (lookupModuleOutput cb ID MOK w)) = events w @ pre
         \<and> (\<forall>e\<in>set pre. is_MLO_call e)
         \<and> errorCell (snd (lookupModuleOutput cb ID MOK w)) = errorCell w"
  by (auto simp: lookupModuleOutput_def call_MLO_def split: prod.splits)

lemma OutputLookup_world:
  assumes "OutputLookup_lookupModuleOutput cb ID MOK (OL, w) = (r, OL', w')"
  shows "\<exists>pre. events w' = events w @ pre \<and> (\<forall>e\<in>set pre. is_MLO_call e)
         \<and> errorCell w' = errorCell w"
proof -
  have "w' = w \<or> w' = snd (lookupModuleOutput cb ID MOK w)"
    using assms
    by (auto simp: OutputLookup_lookupModuleOutput_def split: if_splits prod.splits option.splits sum.splits)
  then show ?thesis
    using lookupModuleOutput_world [of cb ID MOK w] by auto
qed

lemma run_scanning_world:
  "run_scanning cb t (OL, w) = (r, OL', w') \<Longrightarrow>
     \<exists>pre. events w' = events w @ pre \<and> (\<forall>e\<in>set pre. is_MLO_call e)
           \<and> errorCell w' = errorCell w"
proof (induction t arbitrary: OL w)
  case (Done x)
  then show ?case by simp
next
  case (LookupOutput ID MOK k)
  obtain r1 OL1 w1 where step: "OutputLookup_lookupModuleOutput cb ID MOK (OL, w) = (r1, OL1, w1)"
    by (cases "OutputLookup_lookupModuleOutput cb ID MOK (OL, w)") auto
  from OutputLookup_world [OF step] obtain pre1 where
    p1: "events w1 = events w @ pre1" "\<forall>e\<in>set pre1. is_MLO_call e" "errorCell w1 = errorCell w"
    by blast
  show ?case
  proof (cases r1)
    case (Inl f)
    with LookupOutput.prems step have "w' = w1" by simp
    with p1 show ?thesis by blast
  next
    case (Inr p)
    with LookupOutput.prems step have "run_scanning cb (k p) (OL1, w1) = (r, OL', w')" by simp
    from LookupOutput.IH [OF _ this] obtain pre2 where
      p2: "events w' = events w1 @ pre2" "\<forall>e\<in>set pre2. is_MLO_call e" "errorCell w' = errorCell w1"
      by blast
    have "events w' = events w @ (pre1 @ pre2)" using p1 p2 by simp
    moreover have "\<forall>e\<in>set (pre1 @ pre2). is_MLO_call e" using p1 p2 by auto
    moreover have "errorCell w' = errorCell w" using p1 p2 by simp
    ultimately show ?thesis by blast
  qed
qed

lemma run_scanning_outcomes:
  "run_scanning cb t s = (Inr r, s') \<Longrightarrow> r \<in> outcomes t"
proof (induction t arbitrary: s)
  case (Done x)
  then show ?case by simp
next
  case (LookupOutput ID MOK k)
  from LookupOutput.prems obtain p s1 where "run_scanning cb (k p) s1 = (Inr r, s')"
    by (auto split: prod.splits sum.splits)
  from LookupOutput.IH [OF _ this] have "r \<in> outcomes (k p)" by simp
  then show ?case by auto
qed

text \<open>What a successful call of \<^verbatim>\<open>getFullDependencies\<close> has done.\<close>

lemma getFullDependencies_success:
  assumes success: "getFullDependencies cb Worker Compilation WorkingDirectory error
      DeprecatedDriverCommand ModuleNameArg HandleFullDeps (OL, w) = (Inr (True, Result), (OL', w'))"
  shows "\<exists>Consumer1 s1 FDR w2 R.
      run_scanning cb
          (computeDependencies Worker WorkingDirectory Compilation
             (FullDependencyConsumer Worker {}) ModuleNameArg)
          (OL, w\<lparr>events := events w @ [Engine_call WorkingDirectory Compilation ModuleNameArg]\<rparr>)
        = (Inr (None, Consumer1), s1)
    \<and> run_scanning cb
          (if DeprecatedDriverCommand
           then getFullDependenciesLegacyDriverCommand Worker Consumer1 Compilation
           else takeFullDependencies Worker Consumer1) s1
        = (Inr FDR, (OL', w2))
    \<and> HandleFullDeps (FullDeps FDR) = Inr R \<and> Result = Some R
    \<and> (\<exists>pre. events w2 = events w @ Engine_call WorkingDirectory Compilation ModuleNameArg # pre
            \<and> (\<forall>e\<in>set pre. is_MLO_call e))
    \<and> events w' = events w2
         @ (if DiscoveredModules FDR = [] then []
            else [MDC_call (map make_CXModuleDependency (DiscoveredModules FDR))])
         @ [HandleFullDeps_call (FullDeps FDR)]"
proof -
  let ?w0 = "w\<lparr>events := events w @ [Engine_call WorkingDirectory Compilation ModuleNameArg]\<rparr>"
  let ?scan = "run_scanning cb
          (computeDependencies Worker WorkingDirectory Compilation
             (FullDependencyConsumer Worker {}) ModuleNameArg) (OL, ?w0)"
  from success obtain Consumer1 OL1 w1 where scan: "?scan = (Inr (None, Consumer1), (OL1, w1))"
    by (auto simp: getFullDependencies_def Let_def
        split: prod.splits sum.splits option.splits if_splits)
  let ?take = "run_scanning cb
          (if DeprecatedDriverCommand
           then getFullDependenciesLegacyDriverCommand Worker Consumer1 Compilation
           else takeFullDependencies Worker Consumer1) (OL1, w1)"
  from success scan obtain FDR OL2 w2 where take: "?take = (Inr FDR, (OL2, w2))"
    by (auto simp: getFullDependencies_def Let_def
        split: prod.splits sum.splits option.splits if_splits)
  from success scan take obtain R where
    h: "HandleFullDeps (FullDeps FDR) = Inr R" and res: "Result = Some R" and ol: "OL' = OL2"
    and w': "w' = (notify_discovered cb (DiscoveredModules FDR) w2)
                    \<lparr>events := events (notify_discovered cb (DiscoveredModules FDR) w2)
                        @ [HandleFullDeps_call (FullDeps FDR)]\<rparr>"
    by (auto simp: getFullDependencies_def Let_def split: sum.splits)
  from run_scanning_world [OF scan] obtain pre1 where
    p1: "events w1 = events ?w0 @ pre1" "\<forall>e\<in>set pre1. is_MLO_call e" by blast
  from run_scanning_world [OF take] obtain pre2 where
    p2: "events w2 = events w1 @ pre2" "\<forall>e\<in>set pre2. is_MLO_call e" by blast
  have pre: "events w2 = events w @ Engine_call WorkingDirectory Compilation ModuleNameArg # (pre1 @ pre2)"
    using p1 p2 by simp
  have mlo: "\<forall>e\<in>set (pre1 @ pre2). is_MLO_call e" using p1 p2 by auto
  have ev: "events w' = events w2
         @ (if DiscoveredModules FDR = [] then []
            else [MDC_call (map make_CXModuleDependency (DiscoveredModules FDR))])
         @ [HandleFullDeps_call (FullDeps FDR)]"
    by (simp add: w' notify_discovered_def Let_def)
  from scan take h res ol pre mlo ev show ?thesis by blast
qed

text \<open>
  Claim C2. When \<^verbatim>\<open>getFullDependencies\<close> succeeds, the scan ended without error in a
  consumer, the result \<open>FDR\<close> was taken out of it, and up to then only the engine and the
  lookup callback were called. After that, when \<open>FDR\<close> has discovered modules, the
  discovery callback is called exactly once, with the module set that has one record for
  each of them, in their order and with their names, context hashes, module map paths,
  file dependencies, encoded module dependencies and command lines; when \<open>FDR\<close> has none,
  the callback is not called and the callers' context stays as the scan left it. Only
  then is the translation unit's result built, and the function returns.
\<close>

theorem discovery_before_result:
  assumes success: "getFullDependencies cb Worker Compilation WorkingDirectory error
      DeprecatedDriverCommand ModuleNameArg HandleFullDeps (OL, w) = (Inr (True, Result), (OL', w'))"
  shows "\<exists>Consumer1 s1 FDR w2 R MDS.
      run_scanning cb
          (computeDependencies Worker WorkingDirectory Compilation
             (FullDependencyConsumer Worker {}) ModuleNameArg)
          (OL, w\<lparr>events := events w @ [Engine_call WorkingDirectory Compilation ModuleNameArg]\<rparr>)
        = (Inr (None, Consumer1), s1)
    \<and> run_scanning cb
          (if DeprecatedDriverCommand
           then getFullDependenciesLegacyDriverCommand Worker Consumer1 Compilation
           else takeFullDependencies Worker Consumer1) s1
        = (Inr FDR, (OL', w2))
    \<and> HandleFullDeps (FullDeps FDR) = Inr R \<and> Result = Some R
    \<and> (\<exists>pre. events w2 = events w @ Engine_call WorkingDirectory Compilation ModuleNameArg # pre
            \<and> (\<forall>e\<in>set pre. is_MLO_call e))
    \<and> MDS = map (\<lambda>MD. \<lparr>CXM_Name = ModuleName (MD_ID MD),
                          CXM_ContextHash = ContextHash (MD_ID MD),
                          CXM_ModuleMapPath = MD_ClangModuleMapFile MD,
                          CXM_FileDeps = MD_FileDeps MD,
                          CXM_ModuleDeps =
                            map (\<lambda>MID. ModuleName MID @ '':'' @ ContextHash MID)
                              (MD_ClangModuleDeps MD),
                          CXM_BuildArguments = MD_CanonicalCommandLine MD\<rparr>)
                (DiscoveredModules FDR)
    \<and> length MDS = length (DiscoveredModules FDR)
    \<and> events w' = events w2
         @ (if DiscoveredModules FDR = [] then [] else [MDC_call MDS])
         @ [HandleFullDeps_call (FullDeps FDR)]
    \<and> ctx w' = (if DiscoveredModules FDR = [] then ctx w2 else MDC cb (ctx w2) MDS)
    \<and> errorCell w' = errorCell w2"
proof -
  from getFullDependencies_success [OF success] obtain Consumer1 s1 FDR w2 R where
    scan: "run_scanning cb
          (computeDependencies Worker WorkingDirectory Compilation
             (FullDependencyConsumer Worker {}) ModuleNameArg)
          (OL, w\<lparr>events := events w @ [Engine_call WorkingDirectory Compilation ModuleNameArg]\<rparr>)
        = (Inr (None, Consumer1), s1)"
    and take: "run_scanning cb
          (if DeprecatedDriverCommand
           then getFullDependenciesLegacyDriverCommand Worker Consumer1 Compilation
           else takeFullDependencies Worker Consumer1) s1
        = (Inr FDR, (OL', w2))"
    and h: "HandleFullDeps (FullDeps FDR) = Inr R" and res: "Result = Some R"
    and pre: "\<exists>pre. events w2 = events w @ Engine_call WorkingDirectory Compilation ModuleNameArg # pre
            \<and> (\<forall>e\<in>set pre. is_MLO_call e)"
    by blast
  let ?MDS = "map make_CXModuleDependency (DiscoveredModules FDR)"
  from success scan take h have w': "w' = (notify_discovered cb (DiscoveredModules FDR) w2)
                    \<lparr>events := events (notify_discovered cb (DiscoveredModules FDR) w2)
                        @ [HandleFullDeps_call (FullDeps FDR)]\<rparr>"
    by (cases s1) (simp add: getFullDependencies_def Let_def)
  have mds: "?MDS = map (\<lambda>MD. \<lparr>CXM_Name = ModuleName (MD_ID MD),
                          CXM_ContextHash = ContextHash (MD_ID MD),
                          CXM_ModuleMapPath = MD_ClangModuleMapFile MD,
                          CXM_FileDeps = MD_FileDeps MD,
                          CXM_ModuleDeps =
                            map (\<lambda>MID. ModuleName MID @ '':'' @ ContextHash MID)
                              (MD_ClangModuleDeps MD),
                          CXM_BuildArguments = MD_CanonicalCommandLine MD\<rparr>)
                (DiscoveredModules FDR)"
    by (simp add: make_CXModuleDependency_def encodeModuleID_def)
  have len: "length ?MDS = length (DiscoveredModules FDR)" by simp
  have ev: "events w' = events w2
         @ (if DiscoveredModules FDR = [] then [] else [MDC_call ?MDS])
         @ [HandleFullDeps_call (FullDeps FDR)]"
    by (simp add: w' notify_discovered_def Let_def)
  have cx: "ctx w' = (if DiscoveredModules FDR = [] then ctx w2 else MDC cb (ctx w2) ?MDS)"
    by (simp add: w' notify_discovered_def Let_def)
  have ec: "errorCell w' = errorCell w2"
    by (simp add: w' notify_discovered_def Let_def)
  from scan take h res pre mds len ev cx ec show ?thesis by blast
qed

theorem discovery_before_result_witness:
  "\<exists>Result s'. getFullDependencies recording_callbacks (stub_worker Full None [deps_M])
         scan_command ''/src'' True True None (handle_v3 False) (Map.empty, recording_world0)
       = (Inr (True, Result), s')
     \<and> events (snd s') =
         [Engine_call ''/src'' scan_command None,
          MDC_call [\<lparr>CXM_Name = ''M'', CXM_ContextHash = ''H1'',
                      CXM_ModuleMapPath = ''module.modulemap'', CXM_FileDeps = [''m.h''],
                      CXM_ModuleDeps = [], CXM_BuildArguments = [''-cc1'']\<rparr>],
          HandleFullDeps_call (tu_deps [''-fsyntax-only''] [])]
     \<and> ctx (snd s') =
         [[\<lparr>CXM_Name = ''M'', CXM_ContextHash = ''H1'',
            CXM_ModuleMapPath = ''module.modulemap'', CXM_FileDeps = [''m.h''],
            CXM_ModuleDeps = [], CXM_BuildArguments = [''-cc1'']\<rparr>]]"
proof -
  obtain R w' where
    eval: "getFullDependencies recording_callbacks (stub_worker Full None [deps_M])
         scan_command ''/src'' True True None (handle_v3 False) (Map.empty, recording_world0)
       = (Inr (True, Some R), (Map.empty, w'))"
    by (simp add: getFullDependencies_def stub_worker_def handle_v3_def assert_fails_def
        tu_deps_def Let_def)
  from discovery_before_result [OF eval]
  have "events w' =
         [Engine_call ''/src'' scan_command None,
          MDC_call [\<lparr>CXM_Name = ''M'', CXM_ContextHash = ''H1'',
                      CXM_ModuleMapPath = ''module.modulemap'', CXM_FileDeps = [''m.h''],
                      CXM_ModuleDeps = [], CXM_BuildArguments = [''-cc1'']\<rparr>],
          HandleFullDeps_call (tu_deps [''-fsyntax-only''] [])]
     \<and> ctx w' =
         [[\<lparr>CXM_Name = ''M'', CXM_ContextHash = ''H1'',
            CXM_ModuleMapPath = ''module.modulemap'', CXM_FileDeps = [''m.h''],
            CXM_ModuleDeps = [], CXM_BuildArguments = [''-cc1'']\<rparr>]]"
    by (auto simp: stub_worker_def recording_world0_def recording_callbacks_def
        deps_M_def module_M_def)
  with eval show ?thesis by simp
qed

section \<open>Discovery, scan by scan\<close>







section \<open>The entry points\<close>

lemma getFileDependencies_invalid:
  assumes "W = None \<or> argc < 2 \<or> argv = None \<or> (\<exists>Worker. W = Some Worker \<and> getFormat Worker \<noteq> Full)"
  shows "getFileDependencies cb W argc argv WorkingDirectory error DeprecatedDriverCommand
            ModuleNameArg HandleFullDeps (OL, w)
         = (Inr (False, None),
            (OL, guarded_store error
                   (if W = None then ''missing CXDependencyScannerWorker''
                    else if argc < 2 \<or> argv = None then ''invalid argc or argv''
                    else ''unsupported CXDependencyMode for this API'') w))"
  using assms
  by (auto simp: getFileDependencies_def guarded_store_def Let_def split: option.splits)

lemma events_guarded_store [simp]: "events (guarded_store error msg w) = events w"
  by (simp add: guarded_store_def)

lemma ctx_guarded_store [simp]: "ctx (guarded_store error msg w) = ctx w"
  by (simp add: guarded_store_def)

lemma errorCell_notify_discovered [simp]:
  "errorCell (notify_discovered cb D w) = errorCell w"
  by (simp add: notify_discovered_def Let_def)

lemma getFileDependencies_valid:
  assumes "W = Some Worker" "getFormat Worker = Full" "2 \<le> argc" "argv = Some args"
    "nat argc \<le> length args"
  shows "getFileDependencies cb W argc argv WorkingDirectory error DeprecatedDriverCommand
            ModuleNameArg HandleFullDeps (OL, w)
         = getFullDependencies cb Worker (take (nat argc) args) WorkingDirectory error
             DeprecatedDriverCommand ModuleNameArg HandleFullDeps (OL, guarded_store error [] w)"
  using assms by (simp add: getFileDependencies_def Let_def)

lemma getFileDependencies_overread:
  assumes "W = Some Worker" "getFormat Worker = Full" "2 \<le> argc" "argv = Some args"
    "\<not> nat argc \<le> length args"
  shows "getFileDependencies cb W argc argv WorkingDirectory error DeprecatedDriverCommand
            ModuleNameArg HandleFullDeps (OL, w)
         = (Inl (ArgvOverread argc (length args)), (OL, guarded_store error [] w))"
  using assms by (simp add: getFileDependencies_def Let_def)

text \<open>A call of \<^verbatim>\<open>getFileDependencies\<close> that returns was rejected by the validation, or is
  a call of \<^verbatim>\<open>getFullDependencies\<close> that returns.\<close>

lemma getFileDependencies_cases:
  assumes ret: "getFileDependencies cb W argc argv WorkingDirectory error DeprecatedDriverCommand
            ModuleNameArg HandleFullDeps (OL, w) = (Inr x, s')"
  shows "((W = None \<or> argc < 2 \<or> argv = None \<or> (\<exists>Worker. W = Some Worker \<and> getFormat Worker \<noteq> Full))
           \<and> x = (False, None)
           \<and> s' = (OL, guarded_store error
                   (if W = None then ''missing CXDependencyScannerWorker''
                    else if argc < 2 \<or> argv = None then ''invalid argc or argv''
                    else ''unsupported CXDependencyMode for this API'') w))
       \<or> (\<exists>Worker args. W = Some Worker \<and> getFormat Worker = Full \<and> 2 \<le> argc
             \<and> argv = Some args \<and> nat argc \<le> length args
             \<and> getFullDependencies cb Worker (take (nat argc) args) WorkingDirectory error
                 DeprecatedDriverCommand ModuleNameArg HandleFullDeps
                 (OL, guarded_store error [] w) = (Inr x, s'))"
proof (cases "W = None \<or> argc < 2 \<or> argv = None \<or> (\<exists>Worker. W = Some Worker \<and> getFormat Worker \<noteq> Full)")
  case True
  have "getFileDependencies cb W argc argv WorkingDirectory error DeprecatedDriverCommand
            ModuleNameArg HandleFullDeps (OL, w)
         = (Inr (False, None),
            (OL, guarded_store error
                   (if W = None then ''missing CXDependencyScannerWorker''
                    else if argc < 2 \<or> argv = None then ''invalid argc or argv''
                    else ''unsupported CXDependencyMode for this API'') w))"
    by (rule getFileDependencies_invalid [OF True])
  with ret have "x = (False, None)"
    and "s' = (OL, guarded_store error
                   (if W = None then ''missing CXDependencyScannerWorker''
                    else if argc < 2 \<or> argv = None then ''invalid argc or argv''
                    else ''unsupported CXDependencyMode for this API'') w)"
    by simp_all
  with True show ?thesis by blast
next
  case False
  then obtain Worker args where v: "W = Some Worker" "getFormat Worker = Full" "2 \<le> argc"
    "argv = Some args" by auto
  show ?thesis
  proof (cases "nat argc \<le> length args")
    case True
    have "getFileDependencies cb W argc argv WorkingDirectory error DeprecatedDriverCommand
            ModuleNameArg HandleFullDeps (OL, w)
         = getFullDependencies cb Worker (take (nat argc) args) WorkingDirectory error
             DeprecatedDriverCommand ModuleNameArg HandleFullDeps (OL, guarded_store error [] w)"
      by (rule getFileDependencies_valid [OF v True])
    with ret have "getFullDependencies cb Worker (take (nat argc) args) WorkingDirectory error
             DeprecatedDriverCommand ModuleNameArg HandleFullDeps (OL, guarded_store error [] w)
           = (Inr x, s')"
      by simp
    with v True show ?thesis by blast
  next
    case False
    have "getFileDependencies cb W argc argv WorkingDirectory error DeprecatedDriverCommand
            ModuleNameArg HandleFullDeps (OL, w)
         = (Inl (ArgvOverread argc (length args)), (OL, guarded_store error [] w))"
      by (rule getFileDependencies_overread [OF v False])
    with ret show ?thesis by simp
  qed
qed

lemma getFullDependencies_failure:
  assumes ret: "getFullDependencies cb Worker Compilation WorkingDirectory error
      DeprecatedDriverCommand ModuleNameArg HandleFullDeps (OL, w) = (Inr (False, Result), (OL', w'))"
  shows "error \<and> Result = None
     \<and> (\<exists>msg Consumer1 w1. (Some msg, Consumer1) \<in> outcomes
            (computeDependencies Worker WorkingDirectory Compilation
               (FullDependencyConsumer Worker {}) ModuleNameArg)
          \<and> w' = w1\<lparr>errorCell := Some msg\<rparr>)"
proof -
  let ?w0 = "w\<lparr>events := events w @ [Engine_call WorkingDirectory Compilation ModuleNameArg]\<rparr>"
  let ?t = "computeDependencies Worker WorkingDirectory Compilation
             (FullDependencyConsumer Worker {}) ModuleNameArg"
  from ret obtain msg Consumer1 OL1 w1 where
    scan: "run_scanning cb ?t (OL, ?w0) = (Inr (Some msg, Consumer1), (OL1, w1))"
    and rest: "error" "Result = None" "w' = w1\<lparr>errorCell := Some msg\<rparr>"
    by (auto simp: getFullDependencies_def Let_def
        split: prod.splits sum.splits option.splits if_splits)
  from run_scanning_outcomes [OF scan] rest show ?thesis by blast
qed


lemma getFullDependencies_success_errorCell:
  assumes success: "getFullDependencies cb Worker Compilation WorkingDirectory error
      DeprecatedDriverCommand ModuleNameArg HandleFullDeps (OL, w) = (Inr (True, Result), (OL', w'))"
  shows "errorCell w' = errorCell w"
proof -
  let ?w0 = "w\<lparr>events := events w @ [Engine_call WorkingDirectory Compilation ModuleNameArg]\<rparr>"
  from getFullDependencies_success [OF success] obtain Consumer1 OL1 w1 FDR w2 where
    scan: "run_scanning cb
          (computeDependencies Worker WorkingDirectory Compilation
             (FullDependencyConsumer Worker {}) ModuleNameArg) (OL, ?w0)
        = (Inr (None, Consumer1), (OL1, w1))"
    and take: "run_scanning cb
          (if DeprecatedDriverCommand
           then getFullDependenciesLegacyDriverCommand Worker Consumer1 Compilation
           else takeFullDependencies Worker Consumer1) (OL1, w1)
        = (Inr FDR, (OL', w2))"
    by (metis surj_pair)
  from success scan take have "errorCell w' = errorCell w2"
    by (auto simp: getFullDependencies_def Let_def split: sum.splits)
  moreover from run_scanning_world [OF take] have "errorCell w2 = errorCell w1" by blast
  moreover from run_scanning_world [OF scan] have "errorCell w1 = errorCell ?w0" by blast
  ultimately show ?thesis by simp
qed

lemma getFullDependencies_Success_iff:
  assumes "getFullDependencies cb Worker Compilation WorkingDirectory error
      DeprecatedDriverCommand ModuleNameArg HandleFullDeps s = (Inr (Success, Result), s')"
  shows "Success \<longleftrightarrow> Result \<noteq> None"
  using assms
  by (auto simp: getFullDependencies_def Let_def
      split: prod.splits sum.splits option.splits if_splits)

text \<open>The same for the two entry points: a result that is not null comes from a
  successful call of \<^verbatim>\<open>getFullDependencies\<close>.\<close>

lemma entry_point_returns:
  assumes ret: "return_result NDEBUG (getFileDependencies cb W argc argv WorkingDirectory error
            DeprecatedDriverCommand ModuleNameArg HandleFullDeps (Map.empty, w)) = (Inr Result, w')"
  shows "((W = None \<or> argc < 2 \<or> argv = None \<or> (\<exists>Worker. W = Some Worker \<and> getFormat Worker \<noteq> Full))
           \<and> Result = None
           \<and> w' = guarded_store error
                   (if W = None then ''missing CXDependencyScannerWorker''
                    else if argc < 2 \<or> argv = None then ''invalid argc or argv''
                    else ''unsupported CXDependencyMode for this API'') w)
       \<or> (\<exists>Worker args OL'. W = Some Worker \<and> getFormat Worker = Full \<and> 2 \<le> argc
             \<and> argv = Some args \<and> nat argc \<le> length args
             \<and> getFullDependencies cb Worker (take (nat argc) args) WorkingDirectory error
                 DeprecatedDriverCommand ModuleNameArg HandleFullDeps
                 (Map.empty, guarded_store error [] w) = (Inr (Result \<noteq> None, Result), (OL', w')))"
proof -
  from ret obtain Success OL' where
    g: "getFileDependencies cb W argc argv WorkingDirectory error
            DeprecatedDriverCommand ModuleNameArg HandleFullDeps (Map.empty, w)
          = (Inr (Success, Result), (OL', w'))"
    by (auto simp: return_result_def assert_fails_def split: prod.splits sum.splits if_splits)
  from getFileDependencies_cases [OF g]
  show ?thesis
  proof
    assume "(W = None \<or> argc < 2 \<or> argv = None \<or> (\<exists>Worker. W = Some Worker \<and> getFormat Worker \<noteq> Full))
           \<and> (Success, Result) = (False, None)
           \<and> (OL', w') = (Map.empty, guarded_store error
                   (if W = None then ''missing CXDependencyScannerWorker''
                    else if argc < 2 \<or> argv = None then ''invalid argc or argv''
                    else ''unsupported CXDependencyMode for this API'') w)"
    then show ?thesis by simp
  next
    assume "\<exists>Worker args. W = Some Worker \<and> getFormat Worker = Full \<and> 2 \<le> argc
             \<and> argv = Some args \<and> nat argc \<le> length args
             \<and> getFullDependencies cb Worker (take (nat argc) args) WorkingDirectory error
                 DeprecatedDriverCommand ModuleNameArg HandleFullDeps
                 (Map.empty, guarded_store error [] w) = (Inr (Success, Result), (OL', w'))"
    then obtain Worker args where v: "W = Some Worker" "getFormat Worker = Full" "2 \<le> argc"
      "argv = Some args" "nat argc \<le> length args"
      and f: "getFullDependencies cb Worker (take (nat argc) args) WorkingDirectory error
                 DeprecatedDriverCommand ModuleNameArg HandleFullDeps
                 (Map.empty, guarded_store error [] w) = (Inr (Success, Result), (OL', w'))"
      by blast
    from getFullDependencies_Success_iff [OF f] f
    have "getFullDependencies cb Worker (take (nat argc) args) WorkingDirectory error
                 DeprecatedDriverCommand ModuleNameArg HandleFullDeps
                 (Map.empty, guarded_store error [] w) = (Inr (Result \<noteq> None, Result), (OL', w'))"
      by simp
    with v show ?thesis by blast
  qed
qed

lemma getFullDependencies_engine_failure:
  assumes "run_scanning cb
             (computeDependencies Worker WorkingDirectory Compilation
                (FullDependencyConsumer Worker {}) ModuleNameArg)
             (OL, w\<lparr>events := events w @
                        [Engine_call WorkingDirectory Compilation ModuleNameArg]\<rparr>)
           = (Inr (Some msg, Consumer1), (OL1, w1))"
  shows "getFullDependencies cb Worker Compilation WorkingDirectory error
             DeprecatedDriverCommand ModuleNameArg HandleFullDeps (OL, w)
         = (if error then (Inr (False, None), (OL1, w1\<lparr>errorCell := Some msg\<rparr>))
            else (Inl NullPointerWrite, (OL1, w1)))"
  using assms by (simp add: getFullDependencies_def Let_def)

text \<open>
  Claim C8, as stated, fails: with a null error pointer the rejected call returns null and
  no error string, since every store of the message is guarded by \<^verbatim>\<open>if (error)\<close>.
\<close>

theorem validation_null_error_no_string:
  "clang_experimental_DependencyScannerWorker_getFileDependencies_v3
      False (path_callbacks []) (None :: unit DependencyScanningWorker option) 3
      (Some scan_command) None ''/src'' False world0 = (Inr None, world0)
   \<and> errorCell world0 = None"
  by (simp add: clang_experimental_DependencyScannerWorker_getFileDependencies_v3_def
      getFileDependencies_def return_result_def assert_fails_def
      guarded_store_def world0_def)

text \<open>
  Claim C8, amended. With a null worker handle, with \<^verbatim>\<open>argc < 2\<close> or a null \<^verbatim>\<open>argv\<close>, or
  with a worker whose format is not \<^verbatim>\<open>Full\<close> (the format of a service created in the flat
  mode), both entry points return null, no event happens (the engine and the two
  callbacks are not called) and the callers' context is untouched. When the error
  pointer is not null, the error string is the non-empty message of the failed check;
  when it is null, nothing is stored.
\<close>

theorem validation_before_engine:
  assumes invalid: "W = None \<or> argc < 2 \<or> argv = None
                    \<or> (\<exists>Worker. W = Some Worker \<and> getFormat Worker \<noteq> Full)"
  shows "fst (clang_experimental_DependencyScannerWorker_getFileDependencies_v3
      NDEBUG cb W argc argv ModuleNameArg WorkingDirectory error w) = Inr None
       \<and> fst (clang_experimental_DependencyScannerWorker_getFileDependencies_v4
           NDEBUG cb W argc argv ModuleNameArg WorkingDirectory error w) = Inr None
       \<and> events (snd (clang_experimental_DependencyScannerWorker_getFileDependencies_v3
           NDEBUG cb W argc argv ModuleNameArg WorkingDirectory error w))
           = events w
       \<and> events (snd (clang_experimental_DependencyScannerWorker_getFileDependencies_v4
           NDEBUG cb W argc argv ModuleNameArg WorkingDirectory error w))
           = events w
       \<and> ctx (snd (clang_experimental_DependencyScannerWorker_getFileDependencies_v3
           NDEBUG cb W argc argv ModuleNameArg WorkingDirectory error w))
           = ctx w
       \<and> ctx (snd (clang_experimental_DependencyScannerWorker_getFileDependencies_v4
           NDEBUG cb W argc argv ModuleNameArg WorkingDirectory error w))
           = ctx w
       \<and> (error \<longrightarrow>
            errorCell (snd (clang_experimental_DependencyScannerWorker_getFileDependencies_v3
                NDEBUG cb W argc argv ModuleNameArg WorkingDirectory error w))
              = Some (if W = None then ''missing CXDependencyScannerWorker''
                      else if argc < 2 \<or> argv = None then ''invalid argc or argv''
                      else ''unsupported CXDependencyMode for this API'')
          \<and> errorCell (snd (clang_experimental_DependencyScannerWorker_getFileDependencies_v4
              NDEBUG cb W argc argv ModuleNameArg WorkingDirectory error w))
              = Some (if W = None then ''missing CXDependencyScannerWorker''
                      else if argc < 2 \<or> argv = None then ''invalid argc or argv''
                      else ''unsupported CXDependencyMode for this API''))
       \<and> (\<not> error \<longrightarrow>
            snd (clang_experimental_DependencyScannerWorker_getFileDependencies_v3
                NDEBUG cb W argc argv ModuleNameArg WorkingDirectory error w) = w
          \<and> snd (clang_experimental_DependencyScannerWorker_getFileDependencies_v4
              NDEBUG cb W argc argv ModuleNameArg WorkingDirectory error w) = w)
       \<and> (if W = None then ''missing CXDependencyScannerWorker''
           else if argc < 2 \<or> argv = None then ''invalid argc or argv''
           else ''unsupported CXDependencyMode for this API'') \<noteq> []
       \<and> unwrap_Format CXDependencyMode_Flat \<noteq> Full"
  by (simp add: clang_experimental_DependencyScannerWorker_getFileDependencies_v3_def
      clang_experimental_DependencyScannerWorker_getFileDependencies_v4_def
      getFileDependencies_invalid [OF invalid] return_result_def assert_fails_def guarded_store_def)

theorem validation_before_engine_witness:
  "fst (clang_experimental_DependencyScannerWorker_getFileDependencies_v3
      False (path_callbacks []) (Some (stub_worker Make None [deps_M])) 3
          (Some scan_command) None ''/src'' True world0) = Inr None
   \<and> events (snd (clang_experimental_DependencyScannerWorker_getFileDependencies_v3
       False (path_callbacks []) (Some (stub_worker Make None [deps_M])) 3
          (Some scan_command) None ''/src'' True world0)) = []
   \<and> errorCell (snd (clang_experimental_DependencyScannerWorker_getFileDependencies_v3
       False (path_callbacks []) (Some (stub_worker Make None [deps_M])) 3
          (Some scan_command) None ''/src'' True world0))
       = Some ''unsupported CXDependencyMode for this API''"
proof -
  have invalid: "Some (stub_worker Make None [deps_M]) = None \<or> (3::int) < 2
      \<or> Some scan_command = None
      \<or> (\<exists>Worker. Some (stub_worker Make None [deps_M]) = Some Worker \<and> getFormat Worker \<noteq> Full)"
    by (simp add: stub_worker_def)
  from validation_before_engine
      [OF invalid, of False "path_callbacks []" None "''/src''" True world0]
  show ?thesis by (simp add: world0_def)
qed

lemma lookupModuleOutput_fault:
  "fst (lookupModuleOutput cb ID MOK w) = Inl f \<Longrightarrow> \<exists>n m. f = BufferOverread n m \<and> m < n"
  by (auto simp: lookupModuleOutput_def string_of_buffer_def split: prod.splits if_splits)

lemma OutputLookup_fault:
  assumes "OutputLookup_lookupModuleOutput cb ID MOK s = (Inl f, s')"
  shows "\<exists>n m. f = BufferOverread n m \<and> m < n"
proof -
  obtain OL w where s: "s = (OL, w)" by (cases s)
  from assms s have "fst (lookupModuleOutput cb ID MOK w) = Inl f"
    by (auto simp: OutputLookup_lookupModuleOutput_def
        split: if_splits prod.splits option.splits sum.splits)
  then show ?thesis by (rule lookupModuleOutput_fault)
qed

lemma run_scanning_fault:
  "run_scanning cb t s = (Inl f, s') \<Longrightarrow> \<exists>n m. f = BufferOverread n m \<and> m < n"
proof (induction t arbitrary: s)
  case (Done x)
  then show ?case by simp
next
  case (LookupOutput ID MOK k)
  obtain r1 s1 where step: "OutputLookup_lookupModuleOutput cb ID MOK s = (r1, s1)"
    by (cases "OutputLookup_lookupModuleOutput cb ID MOK s")
  show ?case
  proof (cases r1)
    case (Inl g)
    with LookupOutput.prems step have "g = f" by simp
    with step Inl show ?thesis by (auto dest: OutputLookup_fault)
  next
    case (Inr p)
    with LookupOutput.prems step have "run_scanning cb (k p) s1 = (Inl f, s')" by simp
    from LookupOutput.IH [OF _ this] show ?thesis by simp
  qed
qed

lemma getFullDependencies_fault:
  assumes "getFullDependencies cb Worker Compilation WorkingDirectory error
      DeprecatedDriverCommand ModuleNameArg HandleFullDeps s = (Inl f, s')"
  shows "(\<exists>n m. f = BufferOverread n m \<and> m < n) \<or> (f = NullPointerWrite \<and> \<not> error)
       \<or> (\<exists>FD. HandleFullDeps FD = Inl f)"
proof -
  obtain OL w where s: "s = (OL, w)" by (cases s)
  let ?w0 = "w\<lparr>events := events w @ [Engine_call WorkingDirectory Compilation ModuleNameArg]\<rparr>"
  let ?scan = "run_scanning cb
                 (computeDependencies Worker WorkingDirectory Compilation
                    (FullDependencyConsumer Worker {}) ModuleNameArg) (OL, ?w0)"
  obtain r1 s1 where scan: "?scan = (r1, s1)" by (cases ?scan)
  show ?thesis
  proof (cases r1)
    case (Inl g)
    with assms s scan have "g = f" by (simp add: getFullDependencies_def Let_def)
    with scan Inl show ?thesis by (auto dest: run_scanning_fault)
  next
    case (Inr x)
    obtain failure Consumer1 where x: "x = (failure, Consumer1)" by (cases x)
    show ?thesis
    proof (cases failure)
      case (Some msg)
      with assms s scan Inr x show ?thesis
        by (cases s1) (auto simp: getFullDependencies_def Let_def split: if_splits)
    next
      case None
      let ?take = "run_scanning cb
                 (if DeprecatedDriverCommand
                  then getFullDependenciesLegacyDriverCommand Worker Consumer1 Compilation
                  else takeFullDependencies Worker Consumer1) s1"
      obtain r2 s2 where take: "?take = (r2, s2)" by (cases ?take)
      show ?thesis
      proof (cases r2)
        case (Inl g)
        with assms s scan Inr x None take have "g = f"
          by (simp add: getFullDependencies_def Let_def)
        with take Inl show ?thesis by (auto dest: run_scanning_fault)
      next
        case FDR: (Inr FDR)
        with assms s scan Inr x None take have "HandleFullDeps (FullDeps FDR) = Inl f"
          by (cases s2) (auto simp: getFullDependencies_def Let_def split: sum.splits)
        then show ?thesis by blast
      qed
    qed
  qed
qed

lemma getFileDependencies_fault:
  assumes "getFileDependencies cb W argc argv WorkingDirectory error DeprecatedDriverCommand
            ModuleNameArg HandleFullDeps s = (Inl f, s')"
  shows "(\<exists>n m. f = BufferOverread n m \<and> m < n) \<or> (f = NullPointerWrite \<and> \<not> error)
       \<or> (\<exists>FD. HandleFullDeps FD = Inl f)
       \<or> (\<exists>args. argv = Some args \<and> f = ArgvOverread argc (length args)
              \<and> int (length args) < argc)"
proof -
  obtain OL w where s: "s = (OL, w)" by (cases s)
  from assms s obtain Worker args where v: "W = Some Worker" "argv = Some args" "\<not> argc < 2"
    "getFormat Worker = Full"
    by (auto simp: getFileDependencies_def Let_def split: option.splits if_splits)
  show ?thesis
  proof (cases "nat argc \<le> length args")
    case True
    with assms s v have "getFullDependencies cb Worker (take (nat argc) args) WorkingDirectory
        error DeprecatedDriverCommand ModuleNameArg HandleFullDeps (OL, guarded_store error [] w)
        = (Inl f, s')"
      by (simp add: getFileDependencies_def Let_def)
    from getFullDependencies_fault [OF this] show ?thesis by blast
  next
    case False
    with assms s v have "f = ArgvOverread argc (length args)"
      by (simp add: getFileDependencies_def Let_def)
    with v False show ?thesis by auto
  qed
qed

lemma entry_point_fault:
  assumes ret: "return_result NDEBUG (getFileDependencies cb W argc argv WorkingDirectory True
            DeprecatedDriverCommand ModuleNameArg HandleFullDeps (Map.empty, w)) = (Inl f, w')"
    and handler: "\<And>FD g. HandleFullDeps FD = Inl g \<Longrightarrow> \<not> NDEBUG \<and> (\<exists>c. g = AssertionFailed c)"
  shows "(\<exists>n m. f = BufferOverread n m \<and> m < n)
       \<or> (\<exists>args. argv = Some args \<and> f = ArgvOverread argc (length args)
              \<and> int (length args) < argc)
       \<or> (\<not> NDEBUG \<and> (\<exists>c. f = AssertionFailed c))"
proof -
  let ?g = "getFileDependencies cb W argc argv WorkingDirectory True
            DeprecatedDriverCommand ModuleNameArg HandleFullDeps (Map.empty, w)"
  obtain r s1 where g: "?g = (r, s1)" by (cases ?g)
  show ?thesis
  proof (cases r)
    case (Inl h)
    with ret g have "h = f" by (cases s1) (simp add: return_result_def)
    with g Inl have "?g = (Inl f, s1)" by simp
    from getFileDependencies_fault [OF this] handler show ?thesis by blast
  next
    case (Inr x)
    with ret g have "\<not> NDEBUG \<and> (\<exists>c. f = AssertionFailed c)"
      by (cases s1; cases x)
        (auto simp: return_result_def assert_fails_def split: if_splits)
    then show ?thesis by blast
  qed
qed

lemma entry_point_error_string:
  assumes ret: "return_result NDEBUG (getFileDependencies cb W argc argv WorkingDirectory True
            DeprecatedDriverCommand ModuleNameArg HandleFullDeps (Map.empty, w)) = (Inr Result, w')"
  shows "(Result \<noteq> None \<longrightarrow> errorCell w' = Some [])
       \<and> (Result = None \<longrightarrow>
            (W = None \<or> argc < 2 \<or> argv = None
               \<or> (\<exists>Worker. W = Some Worker \<and> getFormat Worker \<noteq> Full))
            \<and> errorCell w' =
                 Some (if W = None then ''missing CXDependencyScannerWorker''
                       else if argc < 2 \<or> argv = None then ''invalid argc or argv''
                       else ''unsupported CXDependencyMode for this API'')
          \<or> (\<exists>Worker args msg Consumer1.
                 W = Some Worker \<and> getFormat Worker = Full \<and> 2 \<le> argc \<and> argv = Some args
               \<and> (Some msg, Consumer1) \<in> outcomes
                    (computeDependencies Worker WorkingDirectory (take (nat argc) args)
                       (FullDependencyConsumer Worker {}) ModuleNameArg)
               \<and> errorCell w' = Some msg))"
  using entry_point_returns [OF ret]
proof
  assume "(W = None \<or> argc < 2 \<or> argv = None \<or> (\<exists>Worker. W = Some Worker \<and> getFormat Worker \<noteq> Full))
           \<and> Result = None
           \<and> w' = guarded_store True
                   (if W = None then ''missing CXDependencyScannerWorker''
                    else if argc < 2 \<or> argv = None then ''invalid argc or argv''
                    else ''unsupported CXDependencyMode for this API'') w"
  then show ?thesis by (simp add: guarded_store_def)
next
  assume "\<exists>Worker args OL'. W = Some Worker \<and> getFormat Worker = Full \<and> 2 \<le> argc
             \<and> argv = Some args \<and> nat argc \<le> length args
             \<and> getFullDependencies cb Worker (take (nat argc) args) WorkingDirectory True
                 DeprecatedDriverCommand ModuleNameArg HandleFullDeps
                 (Map.empty, guarded_store True [] w) = (Inr (Result \<noteq> None, Result), (OL', w'))"
  then obtain Worker args OL' where W: "W = Some Worker" "getFormat Worker = Full" "2 \<le> argc"
    "argv = Some args"
    and f: "getFullDependencies cb Worker (take (nat argc) args) WorkingDirectory True
                 DeprecatedDriverCommand ModuleNameArg HandleFullDeps
                 (Map.empty, guarded_store True [] w) = (Inr (Result \<noteq> None, Result), (OL', w'))"
    by blast
  show ?thesis
  proof (cases "Result = None")
    case True
    with f have "getFullDependencies cb Worker (take (nat argc) args) WorkingDirectory True
                 DeprecatedDriverCommand ModuleNameArg HandleFullDeps
                 (Map.empty, guarded_store True [] w) = (Inr (False, Result), (OL', w'))"
      by simp
    from getFullDependencies_failure [OF this] obtain msg Consumer1 w1 where
      "(Some msg, Consumer1) \<in> outcomes
            (computeDependencies Worker WorkingDirectory (take (nat argc) args)
               (FullDependencyConsumer Worker {}) ModuleNameArg)"
      and "w' = w1\<lparr>errorCell := Some msg\<rparr>"
      by blast
    then have "(Some msg, Consumer1) \<in> outcomes
            (computeDependencies Worker WorkingDirectory (take (nat argc) args)
               (FullDependencyConsumer Worker {}) ModuleNameArg)
               \<and> errorCell w' = Some msg"
      by simp
    with W True show ?thesis by blast
  next
    case False
    with f have "getFullDependencies cb Worker (take (nat argc) args) WorkingDirectory True
                 DeprecatedDriverCommand ModuleNameArg HandleFullDeps
                 (Map.empty, guarded_store True [] w) = (Inr (True, Result), (OL', w'))"
      by simp
    from getFullDependencies_success_errorCell [OF this]
    have "errorCell w' = Some []" by (simp add: guarded_store_def)
    with False show ?thesis by blast
  qed
qed

lemma handle_v3_fault:
  "handle_v3 NDEBUG FD = Inl g \<Longrightarrow> \<not> NDEBUG \<and> (\<exists>c. g = AssertionFailed c)"
  by (auto simp: handle_v3_def assert_fails_def split: if_splits)

lemma handle_v4_fault:
  "handle_v4 NDEBUG FD = Inl g \<Longrightarrow> \<not> NDEBUG \<and> (\<exists>c. g = AssertionFailed c)"
  by (auto simp: handle_v4_def assert_fails_def split: if_splits)

text \<open>
  Claim C9, as stated, fails: the message of a failed scan is stored as it is (line 128),
  so an engine that fails with an empty message gives a null result and an empty error
  string.
\<close>

theorem engine_failure_empty_message:
  "clang_experimental_DependencyScannerWorker_getFileDependencies_v3 False (path_callbacks [])
      (Some (stub_worker Full (Some []) [])) 3 (Some scan_command) None ''/src'' True world0
     = (Inr None,
        \<lparr>ctx = 0, errorCell = Some [], events = [Engine_call ''/src'' scan_command None]\<rparr>)"
  by (simp add: clang_experimental_DependencyScannerWorker_getFileDependencies_v3_def
      getFileDependencies_def getFullDependencies_def return_result_def assert_fails_def
      stub_worker_def scan_command_def guarded_store_def world0_def Let_def)

text \<open>
  Claim C9, amended. With an error pointer that is not null, when an entry point returns:
  a result that is not null comes with the empty error string; a null result comes
  either from a failed check of the arguments or of the format, with the non-empty
  message of that check, or from a failed scan, with the message of the engine's error,
  whatever it is. A call that does not return ends in a read past the lookup buffer, in
  a read past \<^verbatim>\<open>argv\<close>, or, in a build without \<^verbatim>\<open>NDEBUG\<close>, in a failed \<^verbatim>\<open>assert\<close>; the
  code has no other way out, and raises no exception.
\<close>

theorem error_string_and_result:
  "(\<forall>Result w'.
      clang_experimental_DependencyScannerWorker_getFileDependencies_v3
        NDEBUG cb W argc argv ModuleNameArg WorkingDirectory True w = (Inr Result, w') \<longrightarrow>
      (Result \<noteq> None \<longrightarrow> errorCell w' = Some [])
      \<and> (Result = None \<longrightarrow>
            (W = None \<or> argc < 2 \<or> argv = None
               \<or> (\<exists>Worker. W = Some Worker \<and> getFormat Worker \<noteq> Full))
            \<and> errorCell w' =
                 Some (if W = None then ''missing CXDependencyScannerWorker''
                       else if argc < 2 \<or> argv = None then ''invalid argc or argv''
                       else ''unsupported CXDependencyMode for this API'')
          \<or> (\<exists>Worker args msg Consumer1.
                 W = Some Worker \<and> getFormat Worker = Full \<and> 2 \<le> argc \<and> argv = Some args
               \<and> (Some msg, Consumer1) \<in> outcomes
                    (computeDependencies Worker WorkingDirectory (take (nat argc) args)
                       (FullDependencyConsumer Worker {}) ModuleNameArg)
               \<and> errorCell w' = Some msg)))
 \<and> (\<forall>Result w'.
      clang_experimental_DependencyScannerWorker_getFileDependencies_v4
        NDEBUG cb W argc argv ModuleNameArg WorkingDirectory True w = (Inr Result, w') \<longrightarrow>
      (Result \<noteq> None \<longrightarrow> errorCell w' = Some [])
      \<and> (Result = None \<longrightarrow>
            (W = None \<or> argc < 2 \<or> argv = None
               \<or> (\<exists>Worker. W = Some Worker \<and> getFormat Worker \<noteq> Full))
            \<and> errorCell w' =
                 Some (if W = None then ''missing CXDependencyScannerWorker''
                       else if argc < 2 \<or> argv = None then ''invalid argc or argv''
                       else ''unsupported CXDependencyMode for this API'')
          \<or> (\<exists>Worker args msg Consumer1.
                 W = Some Worker \<and> getFormat Worker = Full \<and> 2 \<le> argc \<and> argv = Some args
               \<and> (Some msg, Consumer1) \<in> outcomes
                    (computeDependencies Worker WorkingDirectory (take (nat argc) args)
                       (FullDependencyConsumer Worker {}) ModuleNameArg)
               \<and> errorCell w' = Some msg)))
 \<and> (\<forall>f w'.
      clang_experimental_DependencyScannerWorker_getFileDependencies_v3
        NDEBUG cb W argc argv ModuleNameArg WorkingDirectory True w = (Inl f, w')
      \<or> clang_experimental_DependencyScannerWorker_getFileDependencies_v4
        NDEBUG cb W argc argv ModuleNameArg WorkingDirectory True w = (Inl f, w') \<longrightarrow>
      (\<exists>n m. f = BufferOverread n m \<and> m < n)
      \<or> (\<exists>args. argv = Some args \<and> f = ArgvOverread argc (length args)
             \<and> int (length args) < argc)
      \<or> (\<not> NDEBUG \<and> (\<exists>c. f = AssertionFailed c)))
 \<and> (if W = None then ''missing CXDependencyScannerWorker''
     else if argc < 2 \<or> argv = None then ''invalid argc or argv''
     else ''unsupported CXDependencyMode for this API'') \<noteq> []"
proof (intro conjI allI impI)
  fix Result w'
  assume "clang_experimental_DependencyScannerWorker_getFileDependencies_v3
        NDEBUG cb W argc argv ModuleNameArg WorkingDirectory True w = (Inr Result, w')"
  then have ret: "return_result NDEBUG (getFileDependencies cb W argc argv WorkingDirectory True
            True ModuleNameArg (handle_v3 NDEBUG) (Map.empty, w)) = (Inr Result, w')"
    by (simp add: clang_experimental_DependencyScannerWorker_getFileDependencies_v3_def)
  note e = entry_point_error_string [OF ret]
  from e show "Result \<noteq> None \<Longrightarrow> errorCell w' = Some []" by blast
  from e show "Result = None \<Longrightarrow>
            (W = None \<or> argc < 2 \<or> argv = None
               \<or> (\<exists>Worker. W = Some Worker \<and> getFormat Worker \<noteq> Full))
            \<and> errorCell w' =
                 Some (if W = None then ''missing CXDependencyScannerWorker''
                       else if argc < 2 \<or> argv = None then ''invalid argc or argv''
                       else ''unsupported CXDependencyMode for this API'')
          \<or> (\<exists>Worker args msg Consumer1.
                 W = Some Worker \<and> getFormat Worker = Full \<and> 2 \<le> argc \<and> argv = Some args
               \<and> (Some msg, Consumer1) \<in> outcomes
                    (computeDependencies Worker WorkingDirectory (take (nat argc) args)
                       (FullDependencyConsumer Worker {}) ModuleNameArg)
               \<and> errorCell w' = Some msg)"
    by blast
next
  fix Result w'
  assume "clang_experimental_DependencyScannerWorker_getFileDependencies_v4
        NDEBUG cb W argc argv ModuleNameArg WorkingDirectory True w = (Inr Result, w')"
  then have ret: "return_result NDEBUG (getFileDependencies cb W argc argv WorkingDirectory True
            False ModuleNameArg (handle_v4 NDEBUG) (Map.empty, w)) = (Inr Result, w')"
    by (simp add: clang_experimental_DependencyScannerWorker_getFileDependencies_v4_def)
  note e = entry_point_error_string [OF ret]
  from e show "Result \<noteq> None \<Longrightarrow> errorCell w' = Some []" by blast
  from e show "Result = None \<Longrightarrow>
            (W = None \<or> argc < 2 \<or> argv = None
               \<or> (\<exists>Worker. W = Some Worker \<and> getFormat Worker \<noteq> Full))
            \<and> errorCell w' =
                 Some (if W = None then ''missing CXDependencyScannerWorker''
                       else if argc < 2 \<or> argv = None then ''invalid argc or argv''
                       else ''unsupported CXDependencyMode for this API'')
          \<or> (\<exists>Worker args msg Consumer1.
                 W = Some Worker \<and> getFormat Worker = Full \<and> 2 \<le> argc \<and> argv = Some args
               \<and> (Some msg, Consumer1) \<in> outcomes
                    (computeDependencies Worker WorkingDirectory (take (nat argc) args)
                       (FullDependencyConsumer Worker {}) ModuleNameArg)
               \<and> errorCell w' = Some msg)"
    by blast
next
  fix f w'
  assume "clang_experimental_DependencyScannerWorker_getFileDependencies_v3
        NDEBUG cb W argc argv ModuleNameArg WorkingDirectory True w = (Inl f, w')
      \<or> clang_experimental_DependencyScannerWorker_getFileDependencies_v4
        NDEBUG cb W argc argv ModuleNameArg WorkingDirectory True w = (Inl f, w')"
  then show "(\<exists>n m. f = BufferOverread n m \<and> m < n)
      \<or> (\<exists>args. argv = Some args \<and> f = ArgvOverread argc (length args)
             \<and> int (length args) < argc)
      \<or> (\<not> NDEBUG \<and> (\<exists>c. f = AssertionFailed c))"
  proof
    assume "clang_experimental_DependencyScannerWorker_getFileDependencies_v3
        NDEBUG cb W argc argv ModuleNameArg WorkingDirectory True w = (Inl f, w')"
    then have "return_result NDEBUG (getFileDependencies cb W argc argv WorkingDirectory True
            True ModuleNameArg (handle_v3 NDEBUG) (Map.empty, w)) = (Inl f, w')"
      by (simp add: clang_experimental_DependencyScannerWorker_getFileDependencies_v3_def)
    then show ?thesis by (rule entry_point_fault) (rule handle_v3_fault)
  next
    assume "clang_experimental_DependencyScannerWorker_getFileDependencies_v4
        NDEBUG cb W argc argv ModuleNameArg WorkingDirectory True w = (Inl f, w')"
    then have "return_result NDEBUG (getFileDependencies cb W argc argv WorkingDirectory True
            False ModuleNameArg (handle_v4 NDEBUG) (Map.empty, w)) = (Inl f, w')"
      by (simp add: clang_experimental_DependencyScannerWorker_getFileDependencies_v4_def)
    then show ?thesis by (rule entry_point_fault) (rule handle_v4_fault)
  qed
next
  show "(if W = None then ''missing CXDependencyScannerWorker''
     else if argc < 2 \<or> argv = None then ''invalid argc or argv''
     else ''unsupported CXDependencyMode for this API'') \<noteq> []"
    by simp
qed

theorem error_string_and_result_witness:
  "(\<exists>w'. clang_experimental_DependencyScannerWorker_getFileDependencies_v3 False (path_callbacks [])
            (Some (stub_worker Full (Some ''file not found'') []))
            3 (Some scan_command) None ''/src'' True world0 = (Inr None, w')
         \<and> errorCell w' = Some ''file not found'')
   \<and> (\<exists>R w'. clang_experimental_DependencyScannerWorker_getFileDependencies_v4 False
            (path_callbacks []) (Some (stub_worker Full None [])) 3
            (Some scan_command) None ''/src'' True world0 = (Inr (Some R), w')
         \<and> errorCell w' = Some [])"
proof -
  obtain w1 where
    e1: "clang_experimental_DependencyScannerWorker_getFileDependencies_v3 False (path_callbacks [])
            (Some (stub_worker Full (Some ''file not found'') []))
            3 (Some scan_command) None ''/src'' True world0 = (Inr None, w1)"
    by (simp add: clang_experimental_DependencyScannerWorker_getFileDependencies_v3_def
        getFileDependencies_def getFullDependencies_def
        return_result_def assert_fails_def stub_worker_def Let_def scan_command_def)
  obtain R2 w2 where
    e2: "clang_experimental_DependencyScannerWorker_getFileDependencies_v4 False
            (path_callbacks []) (Some (stub_worker Full None [])) 3
            (Some scan_command) None ''/src'' True world0 = (Inr (Some R2), w2)"
    by (simp add: clang_experimental_DependencyScannerWorker_getFileDependencies_v4_def
        getFileDependencies_def getFullDependencies_def
        return_result_def assert_fails_def stub_worker_def handle_v4_def tu_deps_def Let_def
        scan_command_def)
  from error_string_and_result [of False "path_callbacks []"
      "Some (stub_worker Full (Some ''file not found'') [])" 3 "Some scan_command" None
      "''/src''" world0] e1
  have "errorCell w1 = Some ''file not found''"
    by (auto simp: stub_worker_def)
  moreover from error_string_and_result [of False "path_callbacks []"
      "Some (stub_worker Full None [])" 3 "Some scan_command" None "''/src''" world0] e2
  have "errorCell w2 = Some []" by blast
  ultimately show ?thesis using e1 e2 by blast
qed

text \<open>
  Claim C10. With a null error pointer, a call that fails a check made before the engine
  runs returns null and leaves the world as it was: nothing is stored. When the engine
  fails, the message is stored through the error pointer without a test: with a pointer
  that is not null the call returns null and the message, with a null pointer it
  stores through the null pointer.
\<close>

theorem null_error_pointer:
  "((W = None \<or> argc < 2 \<or> argv = None \<or> (\<exists>Worker. W = Some Worker \<and> getFormat Worker \<noteq> Full))
      \<longrightarrow> clang_experimental_DependencyScannerWorker_getFileDependencies_v3
          NDEBUG cb W argc argv ModuleNameArg WorkingDirectory False w = (Inr None, w)
        \<and> clang_experimental_DependencyScannerWorker_getFileDependencies_v4
            NDEBUG cb W argc argv ModuleNameArg WorkingDirectory False w = (Inr None, w))
   \<and> (\<forall>Worker args msg Consumer1 OL1 w1.
        W = Some Worker \<and> getFormat Worker = Full \<and> 2 \<le> argc \<and> argv = Some args
        \<and> nat argc \<le> length args
        \<and> run_scanning cb
             (computeDependencies Worker WorkingDirectory (take (nat argc) args)
                (FullDependencyConsumer Worker {}) ModuleNameArg)
             (Map.empty,
              (guarded_store error [] w)
                \<lparr>events := events w @
                    [Engine_call WorkingDirectory (take (nat argc) args) ModuleNameArg]\<rparr>)
           = (Inr (Some msg, Consumer1), (OL1, w1))
        \<longrightarrow> clang_experimental_DependencyScannerWorker_getFileDependencies_v3
            NDEBUG cb W argc argv ModuleNameArg WorkingDirectory error w
              = (if error then (Inr None, w1\<lparr>errorCell := Some msg\<rparr>)
                 else (Inl NullPointerWrite, w1))
          \<and> clang_experimental_DependencyScannerWorker_getFileDependencies_v4
              NDEBUG cb W argc argv ModuleNameArg WorkingDirectory error w
              = (if error then (Inr None, w1\<lparr>errorCell := Some msg\<rparr>)
                 else (Inl NullPointerWrite, w1)))"
proof -
  have a: "clang_experimental_DependencyScannerWorker_getFileDependencies_v3
      NDEBUG cb W argc argv ModuleNameArg WorkingDirectory False w = (Inr None, w)
        \<and> clang_experimental_DependencyScannerWorker_getFileDependencies_v4
            NDEBUG cb W argc argv ModuleNameArg WorkingDirectory False w = (Inr None, w)"
    if "W = None \<or> argc < 2 \<or> argv = None \<or> (\<exists>Worker. W = Some Worker \<and> getFormat Worker \<noteq> Full)"
    by (simp add: clang_experimental_DependencyScannerWorker_getFileDependencies_v3_def
        clang_experimental_DependencyScannerWorker_getFileDependencies_v4_def
      getFileDependencies_invalid [OF that] return_result_def assert_fails_def guarded_store_def)
  have b: "clang_experimental_DependencyScannerWorker_getFileDependencies_v3
      NDEBUG cb W argc argv ModuleNameArg WorkingDirectory error w
              = (if error then (Inr None, w1\<lparr>errorCell := Some msg\<rparr>)
                 else (Inl NullPointerWrite, w1))
          \<and> clang_experimental_DependencyScannerWorker_getFileDependencies_v4
              NDEBUG cb W argc argv ModuleNameArg WorkingDirectory error w
              = (if error then (Inr None, w1\<lparr>errorCell := Some msg\<rparr>)
                 else (Inl NullPointerWrite, w1))"
    if "W = Some Worker" "getFormat Worker = Full" "2 \<le> argc" "argv = Some args"
       "nat argc \<le> length args"
       "run_scanning cb
             (computeDependencies Worker WorkingDirectory (take (nat argc) args)
                (FullDependencyConsumer Worker {}) ModuleNameArg)
             (Map.empty,
              (guarded_store error [] w)
                \<lparr>events := events w @
                    [Engine_call WorkingDirectory (take (nat argc) args) ModuleNameArg]\<rparr>)
           = (Inr (Some msg, Consumer1), (OL1, w1))"
    for Worker args msg Consumer1 OL1 w1
  proof -
    from that(6) have run: "run_scanning cb
             (computeDependencies Worker WorkingDirectory (take (nat argc) args)
                (FullDependencyConsumer Worker {}) ModuleNameArg)
             (Map.empty,
              (guarded_store error [] w)
                \<lparr>events := events (guarded_store error [] w) @
                    [Engine_call WorkingDirectory (take (nat argc) args) ModuleNameArg]\<rparr>)
           = (Inr (Some msg, Consumer1), (OL1, w1))"
      by simp
    show ?thesis
      by (simp add: clang_experimental_DependencyScannerWorker_getFileDependencies_v3_def
          clang_experimental_DependencyScannerWorker_getFileDependencies_v4_def
          getFileDependencies_valid [OF that(1-5)]
          getFullDependencies_engine_failure [OF run] return_result_def assert_fails_def)
  qed
  from a b show ?thesis by blast
qed

theorem null_error_pointer_witness:
  "clang_experimental_DependencyScannerWorker_getFileDependencies_v4
      False (path_callbacks []) (Some (stub_worker Make None [])) 3
      (Some scan_command) None ''/src'' False world0 = (Inr None, world0)
   \<and> clang_experimental_DependencyScannerWorker_getFileDependencies_v4
       False (path_callbacks []) (Some (stub_worker Full (Some ''file not found'') []))
      3 (Some scan_command) None ''/src'' False world0
     = (Inl NullPointerWrite, world0\<lparr>events := [Engine_call ''/src'' scan_command None]\<rparr>)"
proof -
  have invalid: "Some (stub_worker Make None []) = None \<or> (3::int) < 2
      \<or> Some scan_command = None
      \<or> (\<exists>Worker. Some (stub_worker Make None []) = Some Worker \<and> getFormat Worker \<noteq> Full)"
    by (simp add: stub_worker_def)
  from null_error_pointer [of "Some (stub_worker Make None [])" 3 "Some scan_command"
      False "path_callbacks []" None "''/src''" world0] invalid
  have a: "clang_experimental_DependencyScannerWorker_getFileDependencies_v4
      False (path_callbacks []) (Some (stub_worker Make None [])) 3
      (Some scan_command) None ''/src'' False world0 = (Inr None, world0)"
    by blast
  have run: "Some (stub_worker Full (Some ''file not found'') [])
        = Some (stub_worker Full (Some ''file not found'') [])
      \<and> getFormat (stub_worker Full (Some ''file not found'') []) = Full \<and> (2::int) \<le> 3
      \<and> Some scan_command = Some scan_command \<and> nat 3 \<le> length scan_command
      \<and> run_scanning (path_callbacks [])
             (computeDependencies (stub_worker Full (Some ''file not found'') []) ''/src''
                (take (nat 3) scan_command)
                (FullDependencyConsumer (stub_worker Full (Some ''file not found'') []) {}) None)
             (Map.empty,
              (guarded_store False [] world0)
                \<lparr>events := events world0 @
                    [Engine_call ''/src'' (take (nat 3) scan_command) None]\<rparr>)
           = (Inr (Some ''file not found'', ()),
              (Map.empty, world0\<lparr>events := [Engine_call ''/src'' scan_command None]\<rparr>))"
    by (simp add: stub_worker_def scan_command_def guarded_store_def world0_def)
  from null_error_pointer [of "Some (stub_worker Full (Some ''file not found'') [])" 3
      "Some scan_command" False "path_callbacks []" None "''/src''" world0 False] run
  have b: "clang_experimental_DependencyScannerWorker_getFileDependencies_v4
      False (path_callbacks []) (Some (stub_worker Full (Some ''file not found'') []))
      3 (Some scan_command) None ''/src'' False world0
     = (if False then (Inr None, (world0\<lparr>events := [Engine_call ''/src'' scan_command None]\<rparr>)
                             \<lparr>errorCell := Some ''file not found''\<rparr>)
        else (Inl NullPointerWrite, world0\<lparr>events := [Engine_call ''/src'' scan_command None]\<rparr>))"
    by blast
  from a b show ?thesis by simp
qed







end
